theory Spec2Isabelle
  imports Main
begin

section \<open>Data model\<close>

text \<open>
  The backend keeps two MongoDB collections, users and documents, and talks to two
  outside services, Cloudinary (content store) and a JWT library. Object ids are kept in
  their \<open>toString()\<close> form, which is how every comparison of the controllers reads them.
  Times are the millisecond counts of \<open>Date.now()\<close>.
\<close>

type_synonym objectid = string
type_synonym time = int

datatype access_level = View | Edit

text \<open>One element of \<open>sharedWith\<close> in \<open>models/Document.js\<close>. The schema does not require
  \<open>user\<close>, and the controllers guard against its absence, so it is optional here.\<close>

record share =
  user :: "objectid option"
  accessLevel :: access_level
  sharedAt :: time

record document =
  doc_id :: objectid
  title :: string
  description :: string
  documentType :: string
  fileUrl :: string
  publicId :: string
  owner :: objectid
  sharedWith :: "share list"
  createdAt :: time
  updatedAt :: time

text \<open>
  Modelled from the spec: the User schema (\<open>models/User.js\<close>) is not among the
  sources. The record below has the fields of the spec's Identity, under the names the
  controllers use for them: \<open>_id\<close>, \<open>name\<close>, \<open>email\<close>, \<open>password\<close> (the hash),
  \<open>isVerified\<close>, \<open>otp\<close> with its \<open>code\<close> and \<open>expiry\<close>, and \<open>createdAt\<close>. An absent
  value is \<open>None\<close>. The methods of the schema, \<open>getSignedJwtToken\<close> and \<open>matchPassword\<close>,
  are parameters of the environment below.
\<close>

record otp_rec =
  code :: string
  expiry :: time

record user_rec =
  user_id :: objectid
  name :: string
  email :: string
  password :: "string option"
  isVerified :: bool
  otp :: "otp_rec option"
  user_createdAt :: time

record upload_result =
  secure_url :: string
  public_id :: string

text \<open>
  What one request sees of the outside world. \<open>now\<close> is the value of \<open>Date.now()\<close>, one
  value for the whole request. \<open>new_id\<close> is the id Mongoose generates for a created
  document. \<open>write_error\<close> is the error, if any, with which the persistence layer rejects
  a write of this request (schema validation, connectivity); lookups are total. A rejected
  Cloudinary promise is \<open>Inl\<close> of its message; a resolved one carries the service's
  answer, which for \<open>destroy\<close> is a result string such as \<open>ok\<close> or \<open>not found\<close>.
  \<open>jwt_verify\<close> is \<open>jwt.verify\<close> with the server's secret: the error message, or the
  \<open>id\<close> of the decoded payload.
\<close>

record env =
  now :: time
  new_id :: objectid
  cloudinary_upload :: "string \<Rightarrow> string + upload_result"
  cloudinary_destroy :: "string \<Rightarrow> string + string"
  write_error :: "string option"
  jwt_verify :: "string \<Rightarrow> string + objectid"
  getSignedJwtToken :: "user_rec \<Rightarrow> string"
  matchPassword :: "string \<Rightarrow> string option \<Rightarrow> bool"

text \<open>The JSON bodies the controllers send, one constructor per shape.\<close>

datatype body =
    Errors "string list"
  | Message string
  | ServerError string string
  | Data document
  | MessageData string document
  | NoData
  | Token string user_rec

type_synonym response = "nat \<times> body"

text \<open>A request to a document route, after \<open>protect\<close> has attached \<open>req.user\<close> and the
  route's validators have left their findings for \<open>validationResult\<close>.\<close>

record doc_request =
  errors :: "string list"
  req_user :: user_rec
  params_id :: objectid
  params_userId :: string
  body_title :: string
  body_description :: string
  body_documentType :: string
  body_email :: string
  body_accessLevel :: access_level
  file_path :: "string option"

record auth_request =
  auth_errors :: "string list"
  auth_email :: string
  auth_otp :: string
  auth_password :: string

section \<open>Persistence layer\<close>

definition findById :: "document list \<Rightarrow> objectid \<Rightarrow> document option" where
  "findById docs i = find (\<lambda>d. doc_id d = i) docs"

definition findUserById :: "user_rec list \<Rightarrow> objectid \<Rightarrow> user_rec option" where
  "findUserById users i = find (\<lambda>u. user_id u = i) users"

definition findOne_email :: "user_rec list \<Rightarrow> string \<Rightarrow> user_rec option" where
  "findOne_email users e = find (\<lambda>u. email u = e) users"

text \<open>The \<open>trim\<close> setter of the title, on the white space of ASCII.\<close>

definition is_space :: "char \<Rightarrow> bool" where
  "is_space c = (c \<in> set [CHR '' '', CHR 0x09, CHR 0x0A, CHR 0x0B, CHR 0x0C, CHR 0x0D])"

definition trim :: "string \<Rightarrow> string" where
  "trim s = rev (dropWhile is_space (rev (dropWhile is_space s)))"

text \<open>\<open>document.save()\<close>: the \<open>pre('save')\<close> hook of the schema refreshes \<open>updatedAt\<close>, then
  the record with this id is overwritten.\<close>

definition Document_save :: "env \<Rightarrow> document list \<Rightarrow> document \<Rightarrow> string + (document \<times> document list)" where
  "Document_save e docs d =
     (case write_error e of
        Some err \<Rightarrow> Inl err
      | None \<Rightarrow>
          (let d' = d\<lparr>updatedAt := now e\<rparr>
           in Inr (d', map (\<lambda>x. if doc_id x = doc_id d' then d' else x) docs)))"

text \<open>\<open>Document.create\<close>: a fresh id, the schema defaults (\<open>sharedWith\<close> empty, both
  timestamps now), the \<open>trim\<close> setter of the title, and the unique index on the id.\<close>

definition Document_create ::
  "env \<Rightarrow> document list \<Rightarrow> string \<Rightarrow> string \<Rightarrow> string \<Rightarrow> string \<Rightarrow> string \<Rightarrow> objectid
     \<Rightarrow> string + (document \<times> document list)" where
  "Document_create e docs t d ty url pid own =
     (case write_error e of
        Some err \<Rightarrow> Inl err
      | None \<Rightarrow>
          if findById docs (new_id e) \<noteq> None then Inl ''E11000 duplicate key error''
          else
            (let doc = \<lparr>doc_id = new_id e, title = trim t, description = d, documentType = ty,
                        fileUrl = url, publicId = pid, owner = own, sharedWith = [],
                        createdAt = now e, updatedAt = now e\<rparr>
             in Inr (doc, docs @ [doc])))"

text \<open>\<open>Document.findByIdAndUpdate(id, {title, description, documentType, updatedAt}, {new: true})\<close>.\<close>

definition findByIdAndUpdate ::
  "env \<Rightarrow> document list \<Rightarrow> objectid \<Rightarrow> string \<Rightarrow> string \<Rightarrow> string \<Rightarrow> time
     \<Rightarrow> string + (document option \<times> document list)" where
  "findByIdAndUpdate e docs i t d ty upd =
     (case write_error e of
        Some err \<Rightarrow> Inl err
      | None \<Rightarrow>
          (case findById docs i of
             None \<Rightarrow> Inr (None, docs)
           | Some old \<Rightarrow>
               (let d' = old\<lparr>title := trim t, description := d, documentType := ty, updatedAt := upd\<rparr>
                in Inr (Some d', map (\<lambda>x. if doc_id x = i then d' else x) docs))))"

text \<open>\<open>document.deleteOne()\<close>.\<close>

definition deleteOne :: "env \<Rightarrow> document list \<Rightarrow> document \<Rightarrow> string + document list" where
  "deleteOne e docs d =
     (case write_error e of
        Some err \<Rightarrow> Inl err
      | None \<Rightarrow> Inr (filter (\<lambda>x. doc_id x \<noteq> doc_id d) docs))"

section \<open>Document controllers\<close>

subsection \<open>uploadDocument\<close>

definition uploadDocument :: "env \<Rightarrow> document list \<Rightarrow> doc_request \<Rightarrow> response \<times> document list" where
  "uploadDocument e docs req =
     (if errors req \<noteq> [] then ((400, Errors (errors req)), docs)
      else case file_path req of
        None \<Rightarrow> ((400, Message ''Please upload a file''), docs)
      | Some path \<Rightarrow>
          (case cloudinary_upload e path of
             Inl err \<Rightarrow> ((500, ServerError ''Failed to upload file to cloud storage'' err), docs)
           | Inr result \<Rightarrow>
               (case Document_create e docs (body_title req) (body_description req)
                       (body_documentType req) (secure_url result) (public_id result)
                       (user_id (req_user req)) of
                  Inl err \<Rightarrow> ((500, ServerError ''Failed to upload file to cloud storage'' err), docs)
                | Inr (doc, docs') \<Rightarrow> ((201, Data doc), docs'))))"

subsection \<open>updateDocument\<close>

text \<open>The search for an edit share reads \<open>share.user.toString()\<close> with no guard: an entry
  without a user, met before a match, raises a TypeError.\<close>

fun find_edit_share :: "share list \<Rightarrow> objectid \<Rightarrow> string + share option" where
  "find_edit_share [] r = Inr None"
| "find_edit_share (s # ss) r =
     (case user s of
        None \<Rightarrow> Inl ''Cannot read properties of undefined (reading 'toString')''
      | Some u \<Rightarrow> if u = r \<and> accessLevel s = Edit then Inr (Some s) else find_edit_share ss r)"

definition updateDocument :: "env \<Rightarrow> document list \<Rightarrow> doc_request \<Rightarrow> response \<times> document list" where
  "updateDocument e docs req =
     (if errors req \<noteq> [] then ((400, Errors (errors req)), docs)
      else case findById docs (params_id req) of
        None \<Rightarrow> ((404, Message ''Document not found''), docs)
      | Some doc \<Rightarrow>
          (case (if owner doc \<noteq> user_id (req_user req)
                 then (case find_edit_share (sharedWith doc) (user_id (req_user req)) of
                         Inl err \<Rightarrow> Inl err
                       | Inr None \<Rightarrow> Inr False
                       | Inr (Some _) \<Rightarrow> Inr True)
                 else Inr True) of
             Inl err \<Rightarrow> ((500, ServerError ''Server error'' err), docs)
           | Inr False \<Rightarrow> ((403, Message ''Not authorized to update this document''), docs)
           | Inr True \<Rightarrow>
               (case findByIdAndUpdate e docs (params_id req) (body_title req)
                       (body_description req) (body_documentType req) (now e) of
                  Inl err \<Rightarrow> ((500, ServerError ''Server error'' err), docs)
                | Inr (None, docs') \<Rightarrow>
                    ((500, ServerError ''Server error'' ''Cannot read properties of null (reading '_id')''), docs')
                | Inr (Some doc', docs') \<Rightarrow> ((200, Data doc'), docs'))))"

subsection \<open>deleteDocument\<close>

definition deleteDocument :: "env \<Rightarrow> document list \<Rightarrow> doc_request \<Rightarrow> response \<times> document list" where
  "deleteDocument e docs req =
     (case findById docs (params_id req) of
        None \<Rightarrow> ((404, Message ''Document not found''), docs)
      | Some doc \<Rightarrow>
          if owner doc \<noteq> user_id (req_user req)
          then ((403, Message ''Not authorized to delete this document''), docs)
          else (case cloudinary_destroy e (publicId doc) of
                  Inl err \<Rightarrow> ((500, ServerError ''Server error'' err), docs)
                | Inr _ \<Rightarrow>
                    (case deleteOne e docs doc of
                       Inl err \<Rightarrow> ((500, ServerError ''Server error'' err), docs)
                     | Inr docs' \<Rightarrow> ((200, NoData), docs'))))"

subsection \<open>shareDocument\<close>

definition shareDocument ::
  "env \<Rightarrow> user_rec list \<Rightarrow> document list \<Rightarrow> doc_request \<Rightarrow> response \<times> document list" where
  "shareDocument e users docs req =
     (if errors req \<noteq> [] then ((400, Errors (errors req)), docs)
      else case findById docs (params_id req) of
        None \<Rightarrow> ((404, Message ''Document not found''), docs)
      | Some doc \<Rightarrow>
          if owner doc \<noteq> user_id (req_user req)
          then ((403, Message ''Not authorized to share this document''), docs)
          else (case findOne_email users (body_email req) of
                  None \<Rightarrow> ((404, Message ''User not found''), docs)
                | Some usr \<Rightarrow>
                    if user_id usr = user_id (req_user req)
                    then ((400, Message ''Cannot share document with yourself''), docs)
                    else (case find (\<lambda>s. user s = Some (user_id usr)) (sharedWith doc) of
                            Some _ \<Rightarrow> ((400, Message ''Document already shared with this user''), docs)
                          | None \<Rightarrow>
                              (case Document_save e docs
                                      (doc\<lparr>sharedWith := sharedWith doc @
                                             [\<lparr>user = Some (user_id usr),
                                               accessLevel = body_accessLevel req,
                                               sharedAt = now e\<rparr>]\<rparr>) of
                                 Inl err \<Rightarrow> ((500, ServerError ''Server error'' err), docs)
                               | Inr (saved, docs') \<Rightarrow>
                                   ((200, MessageData (''Document shared with '' @ name usr) saved),
                                    docs')))))"

subsection \<open>updateSharing and removeSharing\<close>

fun findIndex :: "('a \<Rightarrow> bool) \<Rightarrow> 'a list \<Rightarrow> nat option" where
  "findIndex P [] = None"
| "findIndex P (x # xs) = (if P x then Some 0 else map_option Suc (findIndex P xs))"

definition updateSharing :: "env \<Rightarrow> document list \<Rightarrow> doc_request \<Rightarrow> response \<times> document list" where
  "updateSharing e docs req =
     (if errors req \<noteq> [] then ((400, Errors (errors req)), docs)
      else case findById docs (params_id req) of
        None \<Rightarrow> ((404, Message ''Document not found''), docs)
      | Some doc \<Rightarrow>
          if owner doc \<noteq> user_id (req_user req)
          then ((403, Message ''Not authorized to update sharing for this document''), docs)
          else (case findIndex (\<lambda>s. user s = Some (params_userId req)) (sharedWith doc) of
                  None \<Rightarrow> ((404, Message ''Document not shared with this user''), docs)
                | Some i \<Rightarrow>
                    (case Document_save e docs
                            (doc\<lparr>sharedWith := (sharedWith doc)
                                   [i := (sharedWith doc ! i)\<lparr>accessLevel := body_accessLevel req\<rparr>]\<rparr>) of
                       Inl err \<Rightarrow> ((500, ServerError ''Server error'' err), docs)
                     | Inr (saved, docs') \<Rightarrow>
                         ((200, MessageData ''Sharing permissions updated'' saved), docs'))))"

definition removeSharing :: "env \<Rightarrow> document list \<Rightarrow> doc_request \<Rightarrow> response \<times> document list" where
  "removeSharing e docs req =
     (case findById docs (params_id req) of
        None \<Rightarrow> ((404, Message ''Document not found''), docs)
      | Some doc \<Rightarrow>
          if owner doc \<noteq> user_id (req_user req)
          then ((403, Message ''Not authorized to remove sharing for this document''), docs)
          else (case findIndex (\<lambda>s. user s = Some (params_userId req)) (sharedWith doc) of
                  None \<Rightarrow> ((404, Message ''Document not shared with this user''), docs)
                | Some i \<Rightarrow>
                    (case Document_save e docs
                            (doc\<lparr>sharedWith := take i (sharedWith doc) @ drop (Suc i) (sharedWith doc)\<rparr>) of
                       Inl err \<Rightarrow> ((500, ServerError ''Server error'' err), docs)
                     | Inr (saved, docs') \<Rightarrow> ((200, MessageData ''Sharing removed'' saved), docs'))))"

section \<open>Authentication controllers\<close>

text \<open>\<open>user.save()\<close> of the users collection.\<close>

definition User_save :: "env \<Rightarrow> user_rec list \<Rightarrow> user_rec \<Rightarrow> string + user_rec list" where
  "User_save e users u =
     (case write_error e of
        Some err \<Rightarrow> Inl err
      | None \<Rightarrow> Inr (map (\<lambda>x. if user_id x = user_id u then u else x) users))"

text \<open>\<open>sendTokenResponse\<close>: the token is signed first, then the password and the OTP are
  removed from the user object that goes into the body.\<close>

definition sendTokenResponse :: "env \<Rightarrow> user_rec \<Rightarrow> nat \<Rightarrow> response" where
  "sendTokenResponse e usr statusCode =
     (let token = getSignedJwtToken e usr
      in (statusCode, Token token (usr\<lparr>password := None, otp := None\<rparr>)))"

definition verifyOTP :: "env \<Rightarrow> user_rec list \<Rightarrow> auth_request \<Rightarrow> response \<times> user_rec list" where
  "verifyOTP e users req =
     (if auth_errors req \<noteq> [] then ((400, Errors (auth_errors req)), users)
      else case findOne_email users (auth_email req) of
        None \<Rightarrow> ((404, Message ''User not found''), users)
      | Some usr \<Rightarrow>
          if isVerified usr then ((400, Message ''Email already verified''), users)
          else (case otp usr of
                  None \<Rightarrow> ((400, Message ''No OTP generated for this user''), users)
                | Some pending \<Rightarrow>
                    if code pending = [] then ((400, Message ''No OTP generated for this user''), users)
                    else if expiry pending < now e then ((400, Message ''OTP expired''), users)
                    else if code pending \<noteq> auth_otp req then ((400, Message ''Invalid OTP''), users)
                    else (case User_save e users (usr\<lparr>isVerified := True, otp := None\<rparr>) of
                            Inl err \<Rightarrow> ((500, ServerError ''Server error'' err), users)
                          | Inr users' \<Rightarrow>
                              (sendTokenResponse e (usr\<lparr>isVerified := True, otp := None\<rparr>) 200,
                               users'))))"

definition login :: "env \<Rightarrow> user_rec list \<Rightarrow> auth_request \<Rightarrow> response" where
  "login e users req =
     (if auth_errors req \<noteq> [] then (400, Errors (auth_errors req))
      else case findOne_email users (auth_email req) of
        None \<Rightarrow> (401, Message ''Invalid credentials'')
      | Some usr \<Rightarrow>
          if \<not> isVerified usr then (401, Message ''Please verify your email before logging in'')
          else if \<not> matchPassword e (auth_password req) (password usr)
          then (401, Message ''Invalid credentials'')
          else sendTokenResponse e usr 200)"

text \<open>Two user records that agree on every field other than the password hash and the
  pending one-time code.\<close>

definition same_but_secrets :: "user_rec \<Rightarrow> user_rec \<Rightarrow> bool" where
  "same_but_secrets u u' \<longleftrightarrow>
     user_id u' = user_id u \<and> name u' = name u \<and> email u' = email u \<and>
     isVerified u' = isVerified u \<and> user_createdAt u' = user_createdAt u"

section \<open>The protect middleware\<close>

text \<open>JavaScript's \<open>s.split(c)\<close> for a one-character separator.\<close>

fun split_on :: "char \<Rightarrow> string \<Rightarrow> string list" where
  "split_on c [] = [[]]"
| "split_on c (x # xs) =
     (if x = c then [] # split_on c xs
      else (case split_on c xs of
              [] \<Rightarrow> [[x]]
            | p # ps \<Rightarrow> (x # p) # ps))"

text \<open>The token the middleware reads off the \<open>Authorization\<close> header: the second piece of
  the header split at spaces, when the header starts with \<open>Bearer\<close>.\<close>

definition header_token :: "string option \<Rightarrow> string option" where
  "header_token authorization =
     (case authorization of
        None \<Rightarrow> None
      | Some h \<Rightarrow>
          if h \<noteq> [] \<and> take 6 h = ''Bearer''
          then (case split_on CHR '' '' h of
                  _ # t # _ \<Rightarrow> Some t
                | _ \<Rightarrow> None)
          else None)"

datatype protect_result = Rejected response | Next user_rec

definition protect :: "env \<Rightarrow> user_rec list \<Rightarrow> string option \<Rightarrow> protect_result" where
  "protect e users authorization =
     (case header_token authorization of
        None \<Rightarrow> Rejected (401, Message ''Not authorized to access this route'')
      | Some token \<Rightarrow>
          if token = [] then Rejected (401, Message ''Not authorized to access this route'')
          else (case jwt_verify e token of
                  Inl err \<Rightarrow> Rejected (401, Message ''Not authorized to access this route'')
                | Inr decoded_id \<Rightarrow>
                    (case findUserById users decoded_id of
                       None \<Rightarrow> Rejected (401, Message ''User not found'')
                     | Some usr \<Rightarrow>
                         if \<not> isVerified usr
                         then Rejected (401, Message ''Please verify your email to access this route'')
                         else Next usr)))"

section \<open>Reachable document stores\<close>

text \<open>The document collection starts empty and changes only through the six mutating
  document routes, each called by any user with any request in any environment.\<close>

inductive reachable :: "document list \<Rightarrow> bool" where
  r_init: "reachable []"
| r_upload: "reachable docs \<Longrightarrow> uploadDocument e docs req = (r, docs') \<Longrightarrow> reachable docs'"
| r_update: "reachable docs \<Longrightarrow> updateDocument e docs req = (r, docs') \<Longrightarrow> reachable docs'"
| r_delete: "reachable docs \<Longrightarrow> deleteDocument e docs req = (r, docs') \<Longrightarrow> reachable docs'"
| r_share: "reachable docs \<Longrightarrow> shareDocument e users docs req = (r, docs') \<Longrightarrow> reachable docs'"
| r_updateSharing: "reachable docs \<Longrightarrow> updateSharing e docs req = (r, docs') \<Longrightarrow> reachable docs'"
| r_removeSharing: "reachable docs \<Longrightarrow> removeSharing e docs req = (r, docs') \<Longrightarrow> reachable docs'"

text \<open>What every share list of a reachable store satisfies: each entry names a user, no
  user is named twice, and the owner is not named.\<close>

definition shares_ok :: "document \<Rightarrow> bool" where
  "shares_ok d \<longleftrightarrow>
     (\<forall>s \<in> set (sharedWith d). user s \<noteq> None) \<and>
     distinct (map user (sharedWith d)) \<and>
     Some (owner d) \<notin> set (map user (sharedWith d))"

definition store_ok :: "document list \<Rightarrow> bool" where
  "store_ok docs \<longleftrightarrow> (\<forall>d \<in> set docs. shares_ok d)"

section \<open>Sample data\<close>

definition alice :: user_rec where
  "alice = \<lparr>user_id = ''a1'', name = ''Alice'', email = ''alice@x.com'',
             password = Some ''hash:wonderland'', isVerified = True, otp = None,
             user_createdAt = 10\<rparr>"

definition bob :: user_rec where
  "bob = \<lparr>user_id = ''b2'', name = ''Bob'', email = ''bob@x.com'',
           password = Some ''hash:builder'', isVerified = True, otp = None,
           user_createdAt = 20\<rparr>"

definition carol :: user_rec where
  "carol = \<lparr>user_id = ''c3'', name = ''Carol'', email = ''carol@x.com'',
             password = Some ''hash:singer'', isVerified = False,
             otp = Some \<lparr>code = ''123456'', expiry = 1000\<rparr>, user_createdAt = 30\<rparr>"

definition dave :: user_rec where
  "dave = \<lparr>user_id = ''d4'', name = ''Dave'', email = ''dave@x.com'',
            password = Some ''hash:diver'', isVerified = False, otp = None, user_createdAt = 40\<rparr>"

definition users0 :: "user_rec list" where
  "users0 = [alice, bob, carol, dave]"

definition env0 :: env where
  "env0 = \<lparr>now = 500, new_id = ''d1'',
            cloudinary_upload = (\<lambda>p. Inr \<lparr>secure_url = ''https://cdn/'' @ p, public_id = ''pid1''\<rparr>),
            cloudinary_destroy = (\<lambda>p. Inr ''ok''),
            write_error = None,
            jwt_verify = (\<lambda>t. if take 4 t = ''tok-'' then Inr (drop 4 t) else Inl ''jwt malformed''),
            getSignedJwtToken = (\<lambda>u. ''tok-'' @ user_id u),
            matchPassword = (\<lambda>p h. case h of None \<Rightarrow> False | Some salted \<Rightarrow> drop 5 salted = p)\<rparr>"

definition users0_rehashed :: "user_rec list" where
  "users0_rehashed =
     [alice\<lparr>password := Some ''salt:wonderland''\<rparr>, bob,
      carol\<lparr>password := Some ''salt:singer''\<rparr>, dave]"

definition env_cloud_down :: env where
  "env_cloud_down = env0\<lparr>cloudinary_upload := (\<lambda>p. Inl ''ETIMEDOUT''),
                         cloudinary_destroy := (\<lambda>p. Inl ''ETIMEDOUT'')\<rparr>"

definition doc1 :: document where
  "doc1 = \<lparr>doc_id = ''d1'', title = ''Passport'', description = ''scan'',
            documentType = ''Passport'', fileUrl = ''https://cdn/tmp/p.pdf'', publicId = ''pid1'',
            owner = ''a1'', sharedWith = [], createdAt = 500, updatedAt = 500\<rparr>"

definition doc1_shared :: document where
  "doc1_shared = doc1\<lparr>sharedWith := [\<lparr>user = Some ''b2'', accessLevel = Edit, sharedAt = 500\<rparr>]\<rparr>"

definition req_alice :: doc_request where
  "req_alice = \<lparr>errors = [], req_user = alice, params_id = ''d1'', params_userId = ''b2'',
                 body_title = ''Passport'', body_description = ''scan'',
                 body_documentType = ''Passport'', body_email = ''bob@x.com'',
                 body_accessLevel = Edit, file_path = Some ''tmp/p.pdf''\<rparr>"

definition req_alice_view :: doc_request where
  "req_alice_view = req_alice\<lparr>body_accessLevel := View\<rparr>"

definition req_alice_self :: doc_request where
  "req_alice_self = req_alice\<lparr>body_email := ''alice@x.com''\<rparr>"

definition doc1_viewed :: document where
  "doc1_viewed = doc1\<lparr>sharedWith := [\<lparr>user = Some ''b2'', accessLevel = View, sharedAt = 500\<rparr>]\<rparr>"

definition req_bob :: doc_request where
  "req_bob = req_alice\<lparr>req_user := bob, body_email := ''carol@x.com'', params_userId := ''c3''\<rparr>"

definition req_carol :: auth_request where
  "req_carol = \<lparr>auth_errors = [], auth_email = ''carol@x.com'', auth_otp = ''123456'',
                 auth_password = ''singer''\<rparr>"

definition req_carol_wrong :: auth_request where
  "req_carol_wrong = req_carol\<lparr>auth_otp := ''000000''\<rparr>"

definition req_alice_auth :: auth_request where
  "req_alice_auth = \<lparr>auth_errors = [], auth_email = ''alice@x.com'', auth_otp = ''123456'',
                      auth_password = ''wonderland''\<rparr>"

definition req_dave :: auth_request where
  "req_dave = req_carol\<lparr>auth_email := ''dave@x.com''\<rparr>"

definition req_nobody :: auth_request where
  "req_nobody = req_carol\<lparr>auth_email := ''nobody@x.com''\<rparr>"

definition env_late :: env where
  "env_late = env0\<lparr>now := 2000\<rparr>"

section \<open>Lookup and invariant lemmas\<close>

lemma findById_SomeD: "findById docs i = Some d \<Longrightarrow> doc_id d = i \<and> d \<in> set docs"
  unfolding findById_def by (induction docs) (auto split: if_splits)

lemma findById_filter_other: "findById (filter (\<lambda>x. doc_id x \<noteq> i) docs) i = None"
  unfolding findById_def by (induction docs) auto

lemma findById_replace:
  "findById docs i = Some d \<Longrightarrow> doc_id d' = i \<Longrightarrow>
   findById (map (\<lambda>x. if doc_id x = i then d' else x) docs) i = Some d'"
  unfolding findById_def by (induction docs) (auto split: if_splits)

lemma distinct_splice: "distinct ys \<Longrightarrow> distinct (take i ys @ drop (Suc i) ys)"
proof -
  assume d: "distinct ys"
  have "distinct (take i ys @ drop i ys)" using d by simp
  then have "set (take i ys) \<inter> set (drop i ys) = {}" by (simp only: distinct_append)
  moreover have "set (drop (Suc i) ys) \<subseteq> set (drop i ys)"
    by (simp add: set_drop_subset_set_drop)
  ultimately have "set (take i ys) \<inter> set (drop (Suc i) ys) = {}" by blast
  then show ?thesis using d by (simp add: distinct_take distinct_drop)
qed

lemma map_user_update_level:
  "map user (xs[i := (xs ! i)\<lparr>accessLevel := a\<rparr>]) = map user xs"
proof (cases "i < length xs")
  case True
  then have "(map user xs)[i := user (xs ! i)] = map user xs"
    by (metis list_update_id nth_map)
  then show ?thesis by (simp add: map_update)
next
  case False
  then have "length xs \<le> i" by simp
  then show ?thesis by (simp only: list_update_beyond)
qed

lemma set_update_level_user:
  "s \<in> set (xs[i := (xs ! i)\<lparr>accessLevel := a\<rparr>]) \<Longrightarrow> user s \<in> user ` set xs"
proof -
  assume "s \<in> set (xs[i := (xs ! i)\<lparr>accessLevel := a\<rparr>])"
  then have "user s \<in> set (map user (xs[i := (xs ! i)\<lparr>accessLevel := a\<rparr>]))" by simp
  then show ?thesis by (simp only: map_user_update_level set_map)
qed

lemma find_None_user: "find (\<lambda>s. user s = Some u) xs = None \<Longrightarrow> Some u \<notin> set (map user xs)"
  by (auto simp: find_None_iff)

lemma shares_ok_cong:
  "owner d' = owner d \<Longrightarrow> sharedWith d' = sharedWith d \<Longrightarrow> shares_ok d' = shares_ok d"
  by (simp add: shares_ok_def)

lemma shares_ok_append:
  assumes "shares_ok d" "find (\<lambda>s. user s = Some u) (sharedWith d) = None" "u \<noteq> owner d"
  shows "shares_ok (d\<lparr>sharedWith := sharedWith d @ [\<lparr>user = Some u, accessLevel = a, sharedAt = t\<rparr>]\<rparr>)"
  using assms find_None_user[OF assms(2)] by (auto simp: shares_ok_def)

lemma shares_ok_update_level:
  assumes "shares_ok d"
  shows "shares_ok (d\<lparr>sharedWith := (sharedWith d)[i := (sharedWith d ! i)\<lparr>accessLevel := a\<rparr>]\<rparr>)"
proof -
  have m: "map user ((sharedWith d)[i := (sharedWith d ! i)\<lparr>accessLevel := a\<rparr>]) = map user (sharedWith d)"
    by (rule map_user_update_level)
  have "\<forall>s \<in> set ((sharedWith d)[i := (sharedWith d ! i)\<lparr>accessLevel := a\<rparr>]). user s \<noteq> None"
    using assms set_update_level_user[of _ "sharedWith d" i a] by (fastforce simp: shares_ok_def)
  then show ?thesis using assms m by (simp add: shares_ok_def)
qed

lemma shares_ok_splice:
  assumes "shares_ok d"
  shows "shares_ok (d\<lparr>sharedWith := take i (sharedWith d) @ drop (Suc i) (sharedWith d)\<rparr>)"
proof -
  let ?xs = "sharedWith d"
  have sub: "set (take i ?xs @ drop (Suc i) ?xs) \<subseteq> set ?xs"
    using set_take_subset[of i ?xs] set_drop_subset[of "Suc i" ?xs] by auto
  have "distinct (take i (map user ?xs) @ drop (Suc i) (map user ?xs))"
    using assms by (intro distinct_splice) (simp add: shares_ok_def)
  then have dis: "distinct (map user (take i ?xs @ drop (Suc i) ?xs))"
    by (simp add: take_map drop_map)
  show ?thesis using assms sub dis by (auto simp: shares_ok_def)
qed



lemma store_ok_replace:
  "store_ok docs \<Longrightarrow> shares_ok d' \<Longrightarrow> store_ok (map (\<lambda>x. if doc_id x = i then d' else x) docs)"
  by (auto simp: store_ok_def)

lemma store_ok_member: "store_ok docs \<Longrightarrow> findById docs i = Some d \<Longrightarrow> shares_ok d"
  by (auto simp: store_ok_def dest: findById_SomeD)

lemma Document_save_ok:
  "Document_save e docs d = Inr (saved, docs') \<Longrightarrow> store_ok docs \<Longrightarrow> shares_ok d \<Longrightarrow> store_ok docs'"
  by (auto simp: Document_save_def Let_def shares_ok_cong[of "d\<lparr>updatedAt := now e\<rparr>" d]
           intro!: store_ok_replace split: option.splits)

lemma Document_create_ok:
  "Document_create e docs t d ty url pid own = Inr (doc, docs') \<Longrightarrow> store_ok docs \<Longrightarrow> store_ok docs'"
  by (auto simp: Document_create_def Let_def store_ok_def shares_ok_def split: option.splits if_splits)

lemma findByIdAndUpdate_ok:
  "findByIdAndUpdate e docs i t d ty upd = Inr (x, docs') \<Longrightarrow> store_ok docs \<Longrightarrow> store_ok docs'"
proof -
  assume a: "findByIdAndUpdate e docs i t d ty upd = Inr (x, docs')" and ok: "store_ok docs"
  show ?thesis
  proof (cases "findById docs i")
    case None
    with a show ?thesis using ok by (auto simp: findByIdAndUpdate_def split: option.splits)
  next
    case (Some old)
    let ?d' = "old\<lparr>title := trim t, description := d, documentType := ty, updatedAt := upd\<rparr>"
    have "shares_ok ?d' = shares_ok old" by (rule shares_ok_cong) simp_all
    then have "shares_ok ?d'" using store_ok_member[OF ok Some] by simp
    then have "store_ok (map (\<lambda>x. if doc_id x = i then ?d' else x) docs)"
      using ok by (intro store_ok_replace)
    with a Some show ?thesis by (auto simp: findByIdAndUpdate_def Let_def split: option.splits)
  qed
qed

lemma deleteOne_ok: "deleteOne e docs d = Inr docs' \<Longrightarrow> store_ok docs \<Longrightarrow> store_ok docs'"
  by (auto simp: deleteOne_def store_ok_def split: option.splits)

lemma uploadDocument_ok:
  "uploadDocument e docs req = (r, docs') \<Longrightarrow> store_ok docs \<Longrightarrow> store_ok docs'"
  by (auto simp: uploadDocument_def dest: Document_create_ok
           split: if_splits option.splits sum.splits)

lemma updateDocument_ok:
  "updateDocument e docs req = (r, docs') \<Longrightarrow> store_ok docs \<Longrightarrow> store_ok docs'"
  by (auto simp: updateDocument_def dest: findByIdAndUpdate_ok
           split: if_splits option.splits sum.splits bool.splits)

lemma deleteDocument_ok:
  "deleteDocument e docs req = (r, docs') \<Longrightarrow> store_ok docs \<Longrightarrow> store_ok docs'"
  by (auto simp: deleteDocument_def dest: deleteOne_ok split: if_splits option.splits sum.splits)

lemma shareDocument_ok:
  assumes "shareDocument e users docs req = (r, docs')" "store_ok docs"
  shows "store_ok docs'"
proof (cases "docs' = docs")
  case True
  with assms show ?thesis by simp
next
  case False
  with assms(1) obtain doc and usr :: user_rec and saved where
    f: "findById docs (params_id req) = Some doc" and
    o: "owner doc = user_id (req_user req)" and
    u: "user_id usr \<noteq> user_id (req_user req)" and
    n: "find (\<lambda>s. user s = Some (user_id usr)) (sharedWith doc) = None" and
    s: "Document_save e docs
          (doc\<lparr>sharedWith := sharedWith doc @
                 [\<lparr>user = Some (user_id usr), accessLevel = body_accessLevel req, sharedAt = now e\<rparr>]\<rparr>)
        = Inr (saved, docs')"
    by (auto simp: shareDocument_def split: if_splits option.splits sum.splits)
  have "shares_ok doc" using assms(2) f by (rule store_ok_member)
  then have "shares_ok (doc\<lparr>sharedWith := sharedWith doc @
                 [\<lparr>user = Some (user_id usr), accessLevel = body_accessLevel req, sharedAt = now e\<rparr>]\<rparr>)"
    using n u o by (intro shares_ok_append) simp_all
  with s assms(2) show ?thesis by (rule Document_save_ok)
qed

lemma updateSharing_ok:
  assumes "updateSharing e docs req = (r, docs')" "store_ok docs"
  shows "store_ok docs'"
proof (cases "docs' = docs")
  case True
  with assms show ?thesis by simp
next
  case False
  with assms(1) obtain doc i saved where
    f: "findById docs (params_id req) = Some doc" and
    s: "Document_save e docs
          (doc\<lparr>sharedWith := (sharedWith doc)
                 [i := (sharedWith doc ! i)\<lparr>accessLevel := body_accessLevel req\<rparr>]\<rparr>)
        = Inr (saved, docs')"
    by (auto simp: updateSharing_def split: if_splits option.splits sum.splits)
  have "shares_ok doc" using assms(2) f by (rule store_ok_member)
  then have "shares_ok (doc\<lparr>sharedWith := (sharedWith doc)
                 [i := (sharedWith doc ! i)\<lparr>accessLevel := body_accessLevel req\<rparr>]\<rparr>)"
    by (rule shares_ok_update_level)
  with s assms(2) show ?thesis by (rule Document_save_ok)
qed

lemma removeSharing_ok:
  assumes "removeSharing e docs req = (r, docs')" "store_ok docs"
  shows "store_ok docs'"
proof (cases "docs' = docs")
  case True
  with assms show ?thesis by simp
next
  case False
  with assms(1) obtain doc i saved where
    f: "findById docs (params_id req) = Some doc" and
    s: "Document_save e docs
          (doc\<lparr>sharedWith := take i (sharedWith doc) @ drop (Suc i) (sharedWith doc)\<rparr>)
        = Inr (saved, docs')"
    by (auto simp: removeSharing_def split: if_splits option.splits sum.splits)
  have "shares_ok doc" using assms(2) f by (rule store_ok_member)
  then have "shares_ok (doc\<lparr>sharedWith := take i (sharedWith doc) @ drop (Suc i) (sharedWith doc)\<rparr>)"
    by (rule shares_ok_splice)
  with s assms(2) show ?thesis by (rule Document_save_ok)
qed

lemma reachable_store_ok: "reachable docs \<Longrightarrow> store_ok docs"
proof (induction rule: reachable.induct)
  case r_init
  show ?case by (simp add: store_ok_def)
qed (blast intro: uploadDocument_ok updateDocument_ok deleteDocument_ok shareDocument_ok
        updateSharing_ok removeSharing_ok)+

lemma findOne_email_replace:
  "findOne_email users em = Some u \<Longrightarrow> email u' = em \<Longrightarrow>
   findOne_email (map (\<lambda>x. if user_id x = user_id u then u' else x) users) em = Some u'"
  unfolding findOne_email_def by (induction users) (auto split: if_splits)

lemma findOne_email_SomeD: "findOne_email users em = Some u \<Longrightarrow> email u = em"
  unfolding findOne_email_def by (induction users) (auto split: if_splits)

lemma verifyOTP_success:
  assumes "auth_errors req = []"
    and "findOne_email users (auth_email req) = Some usr"
    and "\<not> isVerified usr"
    and "otp usr = Some p" and "code p \<noteq> []"
    and "\<not> expiry p < now e" and "code p = auth_otp req"
    and "write_error e = None"
  shows "verifyOTP e users req =
           ((200, Token (getSignedJwtToken e (usr\<lparr>isVerified := True, otp := None\<rparr>))
                    (usr\<lparr>password := None, isVerified := True, otp := None\<rparr>)),
            map (\<lambda>x. if user_id x = user_id usr then usr\<lparr>isVerified := True, otp := None\<rparr> else x)
              users)"
  using assms by (simp add: verifyOTP_def User_save_def sendTokenResponse_def)

lemma split_on_no_sep: "c \<notin> set t \<Longrightarrow> split_on c t = [t]"
  by (induction t) auto

lemma header_token_Bearer:
  "CHR '' '' \<notin> set t \<Longrightarrow> header_token (Some (''Bearer '' @ t)) = Some t"
  by (simp add: header_token_def split_on_no_sep)

lemma same_but_secrets_scrub:
  "same_but_secrets u u' \<Longrightarrow>
   u'\<lparr>password := None, otp := None\<rparr> = u\<lparr>password := None, otp := None\<rparr>"
  by (cases u; cases u') (simp add: same_but_secrets_def)

lemma findOne_email_related:
  "list_all2 same_but_secrets users users' \<Longrightarrow> findOne_email users em = Some u \<Longrightarrow>
   \<exists>u'. findOne_email users' em = Some u' \<and> same_but_secrets u u'"
  unfolding findOne_email_def
  by (induction rule: list_all2_induct) (auto simp: same_but_secrets_def split: if_splits)

lemma verifyOTP_200D:
  "verifyOTP e users req = ((200, b), us) \<Longrightarrow>
   \<exists>usr. findOne_email users (auth_email req) = Some usr \<and>
         b = Token (getSignedJwtToken e (usr\<lparr>isVerified := True, otp := None\<rparr>))
               (usr\<lparr>password := None, isVerified := True, otp := None\<rparr>)"
  by (auto simp: verifyOTP_def User_save_def sendTokenResponse_def split: if_splits option.splits)

lemma login_200D:
  "login e users req = (200, b) \<Longrightarrow>
   \<exists>usr. findOne_email users (auth_email req) = Some usr \<and>
         b = Token (getSignedJwtToken e usr) (usr\<lparr>password := None, otp := None\<rparr>)"
  by (auto simp: login_def sendTokenResponse_def split: if_splits option.splits)

lemma Document_saveD:
  "Document_save e docs d = Inr (saved, docs') \<Longrightarrow>
   write_error e = None \<and> saved = d\<lparr>updatedAt := now e\<rparr> \<and>
   docs' = map (\<lambda>x. if doc_id x = doc_id d then d\<lparr>updatedAt := now e\<rparr> else x) docs"
  by (auto simp: Document_save_def Let_def split: option.splits)

lemma shareDocument_200D:
  assumes "shareDocument e users docs req = ((200, b), docs')"
  shows "\<exists>doc usr. errors req = [] \<and> findById docs (params_id req) = Some doc
      \<and> owner doc = user_id (req_user req)
      \<and> findOne_email users (body_email req) = Some usr
      \<and> user_id usr \<noteq> user_id (req_user req)
      \<and> find (\<lambda>s. user s = Some (user_id usr)) (sharedWith doc) = None
      \<and> write_error e = None
      \<and> docs' = map (\<lambda>x. if doc_id x = params_id req
                          then doc\<lparr>sharedWith := sharedWith doc @
                                 [\<lparr>user = Some (user_id usr), accessLevel = body_accessLevel req,
                                   sharedAt = now e\<rparr>], updatedAt := now e\<rparr>
                          else x) docs"
  using assms
  by (auto simp: shareDocument_def split: if_splits option.splits sum.splits
           dest!: Document_saveD findById_SomeD)

lemma updateSharing_200D:
  assumes "updateSharing e docs req = ((200, b), docs')"
  shows "\<exists>doc i. errors req = [] \<and> findById docs (params_id req) = Some doc
      \<and> owner doc = user_id (req_user req)
      \<and> findIndex (\<lambda>s. user s = Some (params_userId req)) (sharedWith doc) = Some i
      \<and> write_error e = None
      \<and> docs' = map (\<lambda>x. if doc_id x = params_id req
                          then doc\<lparr>sharedWith := (sharedWith doc)
                                 [i := (sharedWith doc ! i)\<lparr>accessLevel := body_accessLevel req\<rparr>],
                                 updatedAt := now e\<rparr>
                          else x) docs"
  using assms
  by (auto simp: updateSharing_def split: if_splits option.splits sum.splits
           dest!: Document_saveD findById_SomeD)

lemma removeSharing_200D:
  assumes "removeSharing e docs req = ((200, b), docs')"
  shows "\<exists>doc i. findById docs (params_id req) = Some doc
      \<and> owner doc = user_id (req_user req)
      \<and> findIndex (\<lambda>s. user s = Some (params_userId req)) (sharedWith doc) = Some i
      \<and> write_error e = None
      \<and> docs' = map (\<lambda>x. if doc_id x = params_id req
                          then doc\<lparr>sharedWith := take i (sharedWith doc) @ drop (Suc i) (sharedWith doc),
                                 updatedAt := now e\<rparr>
                          else x) docs"
  using assms
  by (auto simp: removeSharing_def split: if_splits option.splits sum.splits
           dest!: Document_saveD findById_SomeD)

lemma updateDocument_200D:
  assumes "updateDocument e docs req = ((200, b), docs')"
  shows "\<exists>doc. errors req = [] \<and> findById docs (params_id req) = Some doc
      \<and> write_error e = None
      \<and> b = Data (doc\<lparr>title := trim (body_title req), description := body_description req,
                       documentType := body_documentType req, updatedAt := now e\<rparr>)
      \<and> docs' = map (\<lambda>x. if doc_id x = params_id req
                          then doc\<lparr>title := trim (body_title req),
                                 description := body_description req,
                                 documentType := body_documentType req, updatedAt := now e\<rparr>
                          else x) docs"
  using assms
  by (auto simp: updateDocument_def findByIdAndUpdate_def Let_def
           split: if_splits option.splits sum.splits bool.splits)

lemma find_None_filter: "find P xs = None \<Longrightarrow> filter P xs = []"
  by (simp add: find_None_iff filter_empty_conv)

lemma find_Some_ex: "\<exists>s \<in> set xs. P s \<Longrightarrow> \<exists>y. find P xs = Some y"
  by (cases "find P xs") (auto simp: find_None_iff)

lemma distinct_map_filter_le1:
  "distinct (map f xs) \<Longrightarrow> length (filter (\<lambda>s. f s = y) xs) \<le> 1"
proof (induction xs)
  case Nil
  show ?case by simp
next
  case (Cons x xs)
  show ?case
  proof (cases "f x = y")
    case True
    with Cons.prems have "y \<notin> f ` set xs" by auto
    then have "filter (\<lambda>s. f s = y) xs = []" by (auto simp: filter_empty_conv)
    with True show ?thesis by simp
  next
    case False
    with Cons show ?thesis by simp
  qed
qed

lemma find_edit_share_found:
  "\<forall>s \<in> set xs. user s \<noteq> None \<Longrightarrow> \<exists>s \<in> set xs. user s = Some r \<and> accessLevel s = Edit \<Longrightarrow>
   \<exists>s. find_edit_share xs r = Inr (Some s)"
proof (induction xs)
  case Nil
  then show ?case by simp
next
  case (Cons x xs)
  from Cons.prems(1) obtain u where u: "user x = Some u" by auto
  show ?case
  proof (cases "u = r \<and> accessLevel x = Edit")
    case True
    with u show ?thesis by simp
  next
    case False
    with Cons.prems(2) u have "\<exists>s \<in> set xs. user s = Some r \<and> accessLevel s = Edit" by auto
    moreover from Cons.prems(1) have "\<forall>s \<in> set xs. user s \<noteq> None" by simp
    ultimately have "\<exists>s. find_edit_share xs r = Inr (Some s)" by (intro Cons.IH)
    with u False show ?thesis by auto
  qed
qed

lemma reachable_shares_ok:
  "reachable docs \<Longrightarrow> findById docs i = Some doc \<Longrightarrow> shares_ok doc"
  by (blast intro: store_ok_member reachable_store_ok)

lemma shareDocument_already:
  assumes "errors req = []" "findById docs (params_id req) = Some doc"
    "owner doc = user_id (req_user req)" "findOne_email users (body_email req) = Some usr"
    "user_id usr \<noteq> user_id (req_user req)" "\<exists>s \<in> set (sharedWith doc). user s = Some (user_id usr)"
  shows "shareDocument e users docs req =
           ((400, Message ''Document already shared with this user''), docs)"
proof -
  obtain y where "find (\<lambda>s. user s = Some (user_id usr)) (sharedWith doc) = Some y"
    using find_Some_ex [OF assms(6)] by blast
  with assms(1-5) show ?thesis by (simp add: shareDocument_def)
qed

lemma updateDocument_authorised:
  assumes "errors req = []" "findById docs (params_id req) = Some doc" "write_error e = None"
    and "owner doc = user_id (req_user req)
         \<or> (\<exists>s. find_edit_share (sharedWith doc) (user_id (req_user req)) = Inr (Some s))"
  shows "updateDocument e docs req =
           ((200, Data (doc\<lparr>title := trim (body_title req), description := body_description req,
                           documentType := body_documentType req, updatedAt := now e\<rparr>)),
            map (\<lambda>x. if doc_id x = params_id req
                     then doc\<lparr>title := trim (body_title req), description := body_description req,
                            documentType := body_documentType req, updatedAt := now e\<rparr>
                     else x) docs)"
  using assms by (auto simp: updateDocument_def findByIdAndUpdate_def Let_def)

lemma shareDocument_success:
  assumes "errors req = []" "findById docs (params_id req) = Some doc"
    "owner doc = user_id (req_user req)" "findOne_email users (body_email req) = Some usr"
    "user_id usr \<noteq> user_id (req_user req)"
    "find (\<lambda>s. user s = Some (user_id usr)) (sharedWith doc) = None" "write_error e = None"
  shows "\<exists>b docs'. shareDocument e users docs req = ((200, b), docs')"
  using assms by (simp add: shareDocument_def Document_save_def Let_def)

lemma updateSharing_success:
  assumes "errors req = []" "findById docs (params_id req) = Some doc"
    "owner doc = user_id (req_user req)"
    "findIndex (\<lambda>s. user s = Some (params_userId req)) (sharedWith doc) = Some i"
    "write_error e = None"
  shows "\<exists>b docs'. updateSharing e docs req = ((200, b), docs')"
  using assms by (simp add: updateSharing_def Document_save_def Let_def)

lemma removeSharing_success:
  assumes "findById docs (params_id req) = Some doc"
    "owner doc = user_id (req_user req)"
    "findIndex (\<lambda>s. user s = Some (params_userId req)) (sharedWith doc) = Some i"
    "write_error e = None"
  shows "\<exists>b docs'. removeSharing e docs req = ((200, b), docs')"
  using assms by (simp add: removeSharing_def Document_save_def Let_def)

subsection \<open>Facts about the sample data\<close>

lemma sample_lookups:
  "findOne_email users0 ''nobody@x.com'' = None"
  "findOne_email users0 ''alice@x.com'' = Some alice"
  "findOne_email users0 ''bob@x.com'' = Some bob"
  "findOne_email users0 ''carol@x.com'' = Some carol"
  "findOne_email users0 ''dave@x.com'' = Some dave"
  by (simp_all add: findOne_email_def users0_def alice_def bob_def carol_def dave_def)

lemma sample_auth_requests:
  "auth_errors req_carol = []" "auth_email req_carol = ''carol@x.com''" "auth_otp req_carol = ''123456''"
  "auth_errors req_carol_wrong = []" "auth_email req_carol_wrong = ''carol@x.com''"
  "auth_otp req_carol_wrong = ''000000''"
  "auth_errors req_alice_auth = []" "auth_email req_alice_auth = ''alice@x.com''"
  "auth_errors req_dave = []" "auth_email req_dave = ''dave@x.com''"
  "auth_errors req_nobody = []" "auth_email req_nobody = ''nobody@x.com''"
  by (simp_all add: req_carol_def req_carol_wrong_def req_alice_auth_def req_dave_def req_nobody_def)

lemma sample_users:
  "isVerified alice" "\<not> isVerified carol" "\<not> isVerified dave" "otp dave = None"
  "otp carol = Some \<lparr>code = ''123456'', expiry = 1000\<rparr>"
  by (simp_all add: alice_def carol_def dave_def)

lemma sample_envs:
  "now env0 = 500" "now env_late = 2000" "write_error env0 = None"
  by (simp_all add: env0_def env_late_def)

lemma sample_rehashed:
  "list_all2 same_but_secrets users0 users0_rehashed"
  "findOne_email users0_rehashed ''carol@x.com'' = Some (carol\<lparr>password := Some ''salt:singer''\<rparr>)"
  "findOne_email users0_rehashed ''alice@x.com'' = Some (alice\<lparr>password := Some ''salt:wonderland''\<rparr>)"
  by (simp_all add: users0_def users0_rehashed_def same_but_secrets_def findOne_email_def
        alice_def bob_def carol_def dave_def)

lemma sample_verify_runs:
  "\<exists>b us. verifyOTP env0 users0 req_carol = ((200, b), us)"
  "\<exists>b us. verifyOTP env0 users0_rehashed req_carol = ((200, b), us)"
proof -
  let ?p = "\<lparr>code = ''123456'', expiry = 1000\<rparr>"
  have p: "code ?p \<noteq> []" "\<not> expiry ?p < now env0" "code ?p = auth_otp req_carol"
    by (simp_all add: sample_envs sample_auth_requests)
  have c: "findOne_email users0 (auth_email req_carol) = Some carol"
    by (simp add: sample_auth_requests sample_lookups)
  have c': "findOne_email users0_rehashed (auth_email req_carol)
      = Some (carol\<lparr>password := Some ''salt:singer''\<rparr>)"
    by (simp add: sample_auth_requests sample_rehashed)
  have u': "\<not> isVerified (carol\<lparr>password := Some ''salt:singer''\<rparr>)"
    "otp (carol\<lparr>password := Some ''salt:singer''\<rparr>) = Some ?p"
    by (simp_all add: carol_def)
  show "\<exists>b us. verifyOTP env0 users0 req_carol = ((200, b), us)"
    using verifyOTP_success [OF sample_auth_requests(1) c sample_users(2) sample_users(5) p sample_envs(3)]
    by blast
  show "\<exists>b us. verifyOTP env0 users0_rehashed req_carol = ((200, b), us)"
    using verifyOTP_success [OF sample_auth_requests(1) c' u' p sample_envs(3)]
    by blast
qed

lemma sample_login_runs:
  "\<exists>b. login env0 users0 req_alice_auth = (200, b)"
  "\<exists>b. login env0 users0_rehashed req_alice_auth = (200, b)"
proof -
  have m: "matchPassword env0 ''wonderland'' (Some ''hash:wonderland'')"
    "matchPassword env0 ''wonderland'' (Some ''salt:wonderland'')"
    by (simp_all add: env0_def)
  have a: "auth_password req_alice_auth = ''wonderland''" "password alice = Some ''hash:wonderland''"
    by (simp_all add: req_alice_auth_def alice_def)
  have "login env0 users0 req_alice_auth = sendTokenResponse env0 alice 200"
    using m(1) by (simp add: login_def sample_lookups sample_auth_requests sample_users a)
  then show "\<exists>b. login env0 users0 req_alice_auth = (200, b)"
    by (simp add: sendTokenResponse_def)
  have "login env0 users0_rehashed req_alice_auth =
      sendTokenResponse env0 (alice\<lparr>password := Some ''salt:wonderland''\<rparr>) 200"
    using m(2) by (simp add: login_def sample_rehashed sample_auth_requests sample_users a)
  then show "\<exists>b. login env0 users0_rehashed req_alice_auth = (200, b)"
    by (simp add: sendTokenResponse_def)
qed

lemma sample_doc_requests:
  "errors req_alice = []" "params_id req_alice = ''d1''" "user_id (req_user req_alice) = ''a1''"
  "body_email req_alice = ''bob@x.com''" "params_userId req_alice = ''b2''"
  "errors req_alice_view = []" "params_id req_alice_view = ''d1''"
  "body_accessLevel req_alice_view = View"
  "errors req_alice_self = []" "params_id req_alice_self = ''d1''"
  "body_email req_alice_self = ''alice@x.com''" "user_id (req_user req_alice_self) = ''a1''"
  "errors req_bob = []" "params_id req_bob = ''d1''" "user_id (req_user req_bob) = ''b2''"
  by (simp_all add: req_alice_def req_alice_view_def req_alice_self_def req_bob_def alice_def bob_def)

lemma sample_docs:
  "findById [doc1] ''d1'' = Some doc1" "findById [doc1_shared] ''d1'' = Some doc1_shared"
  "owner doc1 = ''a1''" "owner doc1_shared = ''a1''"
  "sharedWith doc1_shared = [\<lparr>user = Some ''b2'', accessLevel = Edit, sharedAt = 500\<rparr>]"
  "createdAt doc1_shared = 500" "createdAt doc1 = 500"
  by (simp_all add: findById_def doc1_def doc1_shared_def)

lemma sample_upload: "uploadDocument env0 [] req_alice = ((201, Data doc1), [doc1])"
  by (simp add: uploadDocument_def req_alice_def env0_def Document_create_def findById_def
        alice_def doc1_def trim_def is_space_def Let_def)

lemma sample_share:
  "shareDocument env0 users0 [doc1] req_alice =
     ((200, MessageData ''Document shared with Bob'' doc1_shared), [doc1_shared])"
  by (simp add: shareDocument_def req_alice_def env0_def Document_save_def findById_def
        findOne_email_def users0_def alice_def bob_def doc1_def doc1_shared_def Let_def)

lemma sample_share_view:
  "shareDocument env0 users0 [doc1] req_alice_view =
     ((200, MessageData ''Document shared with Bob'' doc1_viewed), [doc1_viewed])"
  by (simp add: shareDocument_def req_alice_view_def req_alice_def env0_def Document_save_def
        findById_def findOne_email_def users0_def alice_def bob_def doc1_def doc1_viewed_def Let_def)

lemma sample_reachable: "reachable [doc1]" "reachable [doc1_shared]"
proof -
  show r1: "reachable [doc1]"
    using r_init sample_upload by (rule r_upload)
  show "reachable [doc1_shared]"
    using r1 sample_share by (rule r_share)
qed

lemma sample_late_runs:
  "\<exists>b docs'. updateDocument env_late [doc1_shared] req_alice = ((200, b), docs')"
  "\<exists>b docs'. shareDocument env_late users0 [doc1] req_alice = ((200, b), docs')"
  "\<exists>b docs'. updateSharing env_late [doc1_shared] req_alice = ((200, b), docs')"
  "\<exists>b docs'. removeSharing env_late [doc1_shared] req_alice = ((200, b), docs')"
proof -
  have w: "write_error env_late = None" by (simp add: env_late_def env0_def)
  have b: "findOne_email users0 ''bob@x.com'' = Some bob" "user_id bob = ''b2''"
    by (simp_all add: findOne_email_def users0_def alice_def bob_def)
  have f1: "findById [doc1] (params_id req_alice) = Some doc1"
    and f2: "findById [doc1_shared] (params_id req_alice) = Some doc1_shared"
    by (simp_all add: sample_doc_requests sample_docs)
  have o1: "owner doc1 = user_id (req_user req_alice)"
    and o2: "owner doc1_shared = user_id (req_user req_alice)"
    by (simp_all add: sample_doc_requests sample_docs)
  have i: "findIndex (\<lambda>s. user s = Some (params_userId req_alice)) (sharedWith doc1_shared) = Some 0"
    by (simp add: sample_doc_requests sample_docs)
  show "\<exists>b docs'. updateDocument env_late [doc1_shared] req_alice = ((200, b), docs')"
    using updateDocument_authorised [OF sample_doc_requests(1) f2 w] o2 by simp
  show "\<exists>b docs'. shareDocument env_late users0 [doc1] req_alice = ((200, b), docs')"
    by (rule shareDocument_success [OF sample_doc_requests(1) f1 o1 _ _ _ w, where usr = bob])
       (simp_all add: sample_doc_requests b doc1_def)
  show "\<exists>b docs'. updateSharing env_late [doc1_shared] req_alice = ((200, b), docs')"
    using sample_doc_requests(1) f2 o2 i w by (rule updateSharing_success)
  show "\<exists>b docs'. removeSharing env_late [doc1_shared] req_alice = ((200, b), docs')"
    using f2 o2 i w by (rule removeSharing_success)
qed

lemma sample_update_remove:
  "updateSharing env_late [doc1_shared] req_alice_view =
     ((200, MessageData ''Sharing permissions updated'' (doc1_viewed\<lparr>updatedAt := 2000\<rparr>)),
      [doc1_viewed\<lparr>updatedAt := 2000\<rparr>])"
  "removeSharing env_late [doc1_shared] req_alice =
     ((200, MessageData ''Sharing removed'' (doc1\<lparr>updatedAt := 2000\<rparr>)),
      [doc1\<lparr>updatedAt := 2000\<rparr>])"
  by (simp_all add: updateSharing_def removeSharing_def req_alice_view_def req_alice_def
        env_late_def env0_def Document_save_def findById_def alice_def doc1_def doc1_shared_def
        doc1_viewed_def Let_def)

section \<open>Deleting a document\<close>

text \<open>
  C1 (amended). \<open>deleteDocument\<close> is owner-only: for an existing document every requester
  other than the owner, a sharer with edit access included, gets 403 and the store is
  left as it was, so a 200 is only ever sent to the owner. For the owner, a rejected
  Cloudinary \<open>destroy\<close> ends the request with 500 and the record stays in the store;
  when \<open>destroy\<close> resolves, whatever result it reports, and the store accepts the
  write, the record is removed and the answer is 200.
\<close>

theorem deleteDocument_owner_gate_and_release:
  assumes "findById docs (params_id req) = Some doc"
  shows "(owner doc \<noteq> user_id (req_user req) \<longrightarrow>
            deleteDocument e docs req =
              ((403, Message ''Not authorized to delete this document''), docs))
       \<and> (fst (fst (deleteDocument e docs req)) = 200 \<longrightarrow> owner doc = user_id (req_user req))
       \<and> (owner doc = user_id (req_user req) \<longrightarrow>
            (\<forall>err. cloudinary_destroy e (publicId doc) = Inl err \<longrightarrow>
               deleteDocument e docs req = ((500, ServerError ''Server error'' err), docs))
          \<and> (\<forall>res. cloudinary_destroy e (publicId doc) = Inr res \<longrightarrow> write_error e = None \<longrightarrow>
               fst (deleteDocument e docs req) = (200, NoData)
             \<and> findById (snd (deleteDocument e docs req)) (params_id req) = None))"
proof -
  have "doc_id doc = params_id req"
    using assms by (simp add: findById_SomeD)
  then have "findById (filter (\<lambda>x. doc_id x \<noteq> doc_id doc) docs) (params_id req) = None"
    by (simp add: findById_filter_other)
  then show ?thesis
    using assms
    by (auto simp: deleteDocument_def deleteOne_def split: sum.splits option.splits)
qed

text \<open>
  Witness for C1 (amended): Bob, who holds an edit share on Alice's document, is refused;
  Alice's delete fails with 500 and keeps the record while Cloudinary rejects, and
  succeeds with the record gone when Cloudinary answers.
\<close>

theorem deleteDocument_owner_gate_and_release_witness:
  "findById [doc1_shared] (params_id req_bob) = Some doc1_shared
   \<and> deleteDocument env0 [doc1_shared] req_bob =
       ((403, Message ''Not authorized to delete this document''), [doc1_shared])
   \<and> deleteDocument env_cloud_down [doc1_shared] req_alice =
       ((500, ServerError ''Server error'' ''ETIMEDOUT''), [doc1_shared])
   \<and> fst (deleteDocument env0 [doc1_shared] req_alice) = (200, NoData)
   \<and> findById (snd (deleteDocument env0 [doc1_shared] req_alice)) (params_id req_alice) = None"
proof -
  have f: "findById [doc1_shared] (params_id req_bob) = Some doc1_shared"
    by (simp add: findById_def req_bob_def req_alice_def doc1_shared_def doc1_def)
  have g: "findById [doc1_shared] (params_id req_alice) = Some doc1_shared"
    by (simp add: findById_def req_alice_def doc1_shared_def doc1_def)
  have nb: "owner doc1_shared \<noteq> user_id (req_user req_bob)"
    by (simp add: req_bob_def req_alice_def doc1_shared_def doc1_def bob_def)
  have oa: "owner doc1_shared = user_id (req_user req_alice)"
    by (simp add: req_alice_def doc1_shared_def doc1_def alice_def)
  have down: "cloudinary_destroy env_cloud_down (publicId doc1_shared) = Inl ''ETIMEDOUT''"
    by (simp add: env_cloud_down_def)
  have up: "cloudinary_destroy env0 (publicId doc1_shared) = Inr ''ok''"
    by (simp add: env0_def)
  have w: "write_error env0 = None"
    by (simp add: env0_def)
  have c1: "deleteDocument env0 [doc1_shared] req_bob =
       ((403, Message ''Not authorized to delete this document''), [doc1_shared])"
    using deleteDocument_owner_gate_and_release [OF f, of env0] nb by blast
  have c2: "deleteDocument env_cloud_down [doc1_shared] req_alice =
       ((500, ServerError ''Server error'' ''ETIMEDOUT''), [doc1_shared])"
    using deleteDocument_owner_gate_and_release [OF g, of env_cloud_down] oa down by blast
  have c3: "fst (deleteDocument env0 [doc1_shared] req_alice) = (200, NoData)
      \<and> findById (snd (deleteDocument env0 [doc1_shared] req_alice)) (params_id req_alice) = None"
    using deleteDocument_owner_gate_and_release [OF g, of env0] oa up w by blast
  show ?thesis
    using f c1 c2 c3 by (intro conjI) (erule conjunct1 conjunct2 | assumption)+
qed

text \<open>
  Counterexample to C1 as stated: Alice owns the document, Cloudinary rejects the
  \<open>destroy\<close> call, and the request ends with 500 while the record is still stored.
\<close>

theorem deleteDocument_release_failure_counterexample:
  "findById [doc1] (params_id req_alice) = Some doc1
   \<and> owner doc1 = user_id (req_user req_alice)
   \<and> cloudinary_destroy env_cloud_down (publicId doc1) = Inl ''ETIMEDOUT''
   \<and> write_error env_cloud_down = None
   \<and> deleteDocument env_cloud_down [doc1] req_alice =
       ((500, ServerError ''Server error'' ''ETIMEDOUT''), [doc1])"
  by (simp add: deleteDocument_def findById_def req_alice_def doc1_def alice_def
        env_cloud_down_def env0_def)

section \<open>Uploading a document\<close>

text \<open>
  C6. \<open>uploadDocument\<close> calls Cloudinary before it creates the record: when the upload
  is rejected the answer is 500 and the document store is exactly as before, and whenever
  the store does change, the upload had resolved and the one new record carries the
  upload's URL and public id, the requester as owner and an empty share list.
\<close>

theorem uploadDocument_upload_before_create:
  "(errors req = [] \<longrightarrow> file_path req = Some path \<longrightarrow> cloudinary_upload e path = Inl err \<longrightarrow>
      uploadDocument e docs req =
        ((500, ServerError ''Failed to upload file to cloud storage'' err), docs))
   \<and> (snd (uploadDocument e docs req) \<noteq> docs \<longrightarrow>
        (\<exists>p result doc.
           file_path req = Some p \<and> cloudinary_upload e p = Inr result
         \<and> uploadDocument e docs req = ((201, Data doc), docs @ [doc])
         \<and> fileUrl doc = secure_url result \<and> publicId doc = public_id result
         \<and> owner doc = user_id (req_user req) \<and> sharedWith doc = []))"
  by (auto simp: uploadDocument_def Document_create_def Let_def
           split: option.splits sum.splits if_splits)

text \<open>Witness for C6: Alice's upload with Cloudinary down, and with Cloudinary up.\<close>

theorem uploadDocument_upload_before_create_witness:
  "errors req_alice = [] \<and> file_path req_alice = Some ''tmp/p.pdf''
   \<and> cloudinary_upload env_cloud_down ''tmp/p.pdf'' = Inl ''ETIMEDOUT''
   \<and> uploadDocument env_cloud_down [] req_alice =
        ((500, ServerError ''Failed to upload file to cloud storage'' ''ETIMEDOUT''), [])
   \<and> snd (uploadDocument env0 [] req_alice) \<noteq> []
   \<and> (\<exists>p result doc.
           file_path req_alice = Some p \<and> cloudinary_upload env0 p = Inr result
         \<and> uploadDocument env0 [] req_alice = ((201, Data doc), [] @ [doc])
         \<and> fileUrl doc = secure_url result \<and> publicId doc = public_id result
         \<and> owner doc = user_id (req_user req_alice) \<and> sharedWith doc = [])"
proof -
  have a: "errors req_alice = []" and b: "file_path req_alice = Some ''tmp/p.pdf''"
    by (simp_all add: req_alice_def)
  have c: "cloudinary_upload env_cloud_down ''tmp/p.pdf'' = Inl ''ETIMEDOUT''"
    by (simp add: env_cloud_down_def)
  have d: "snd (uploadDocument env0 [] req_alice) \<noteq> []"
    by (simp add: uploadDocument_def Document_create_def findById_def Let_def req_alice_def env0_def)
  have c1: "uploadDocument env_cloud_down [] req_alice =
        ((500, ServerError ''Failed to upload file to cloud storage'' ''ETIMEDOUT''), [])"
    using uploadDocument_upload_before_create [of req_alice "''tmp/p.pdf''" env_cloud_down "''ETIMEDOUT''" "[]"]
      a b c by blast
  have c2: "\<exists>p result doc.
           file_path req_alice = Some p \<and> cloudinary_upload env0 p = Inr result
         \<and> uploadDocument env0 [] req_alice = ((201, Data doc), [] @ [doc])
         \<and> fileUrl doc = secure_url result \<and> publicId doc = public_id result
         \<and> owner doc = user_id (req_user req_alice) \<and> sharedWith doc = []"
    using uploadDocument_upload_before_create [of req_alice _ env0 _ "[]"] d by blast
  show ?thesis using a b c d c1 c2 by (intro conjI) assumption+
qed

section \<open>Verifying a one-time code\<close>

text \<open>
  C4. For a request that passed the route's validators, \<open>verifyOTP\<close> checks in this
  order: no user with the email (404), user already verified (400, store unchanged), no
  pending code (400), code expired, that is \<open>expiry < now\<close> (400), code different from the
  submitted one (400); only otherwise, when the store accepts the write, it answers 200
  with a token, and the stored user is then verified and has no pending code.
\<close>

theorem verifyOTP_precedence:
  assumes "auth_errors req = []"
  shows "(findOne_email users (auth_email req) = None \<longrightarrow>
            verifyOTP e users req = ((404, Message ''User not found''), users))
       \<and> (\<forall>usr. findOne_email users (auth_email req) = Some usr \<and> isVerified usr \<longrightarrow>
            verifyOTP e users req = ((400, Message ''Email already verified''), users))
       \<and> (\<forall>usr. findOne_email users (auth_email req) = Some usr \<and> \<not> isVerified usr
              \<and> (otp usr = None \<or> (\<exists>p. otp usr = Some p \<and> code p = [])) \<longrightarrow>
            verifyOTP e users req = ((400, Message ''No OTP generated for this user''), users))
       \<and> (\<forall>usr p. findOne_email users (auth_email req) = Some usr \<and> \<not> isVerified usr
              \<and> otp usr = Some p \<and> code p \<noteq> [] \<and> expiry p < now e \<longrightarrow>
            verifyOTP e users req = ((400, Message ''OTP expired''), users))
       \<and> (\<forall>usr p. findOne_email users (auth_email req) = Some usr \<and> \<not> isVerified usr
              \<and> otp usr = Some p \<and> code p \<noteq> [] \<and> \<not> expiry p < now e
              \<and> code p \<noteq> auth_otp req \<longrightarrow>
            verifyOTP e users req = ((400, Message ''Invalid OTP''), users))
       \<and> (\<forall>usr p. findOne_email users (auth_email req) = Some usr \<and> \<not> isVerified usr
              \<and> otp usr = Some p \<and> code p \<noteq> [] \<and> \<not> expiry p < now e
              \<and> code p = auth_otp req \<and> write_error e = None \<longrightarrow>
            fst (verifyOTP e users req) =
              (200, Token (getSignedJwtToken e (usr\<lparr>isVerified := True, otp := None\<rparr>))
                      (usr\<lparr>password := None, isVerified := True, otp := None\<rparr>))
          \<and> findOne_email (snd (verifyOTP e users req)) (auth_email req) =
              Some (usr\<lparr>isVerified := True, otp := None\<rparr>))"
proof -
  have em: "\<And>usr. findOne_email users (auth_email req) = Some usr \<Longrightarrow>
      findOne_email (map (\<lambda>x. if user_id x = user_id usr then usr\<lparr>isVerified := True, otp := None\<rparr> else x) users)
        (auth_email req) = Some (usr\<lparr>isVerified := True, otp := None\<rparr>)"
  proof -
    fix usr assume f: "findOne_email users (auth_email req) = Some usr"
    then have "email usr = auth_email req"
      unfolding findOne_email_def by (auto dest: find_Some_iff[THEN iffD1])
    then show "findOne_email (map (\<lambda>x. if user_id x = user_id usr then usr\<lparr>isVerified := True, otp := None\<rparr> else x) users)
        (auth_email req) = Some (usr\<lparr>isVerified := True, otp := None\<rparr>)"
      using f by (intro findOne_email_replace) simp_all
  qed
  show ?thesis
    using assms em
    by (auto simp: verifyOTP_def User_save_def sendTokenResponse_def Let_def
             split: option.splits)
qed

text \<open>Witness for C4: one request for each of the six outcomes.\<close>

theorem verifyOTP_precedence_witness:
  "verifyOTP env0 users0 req_nobody = ((404, Message ''User not found''), users0)
   \<and> verifyOTP env0 users0 req_alice_auth = ((400, Message ''Email already verified''), users0)
   \<and> verifyOTP env0 users0 req_dave = ((400, Message ''No OTP generated for this user''), users0)
   \<and> verifyOTP env_late users0 req_carol = ((400, Message ''OTP expired''), users0)
   \<and> verifyOTP env0 users0 req_carol_wrong = ((400, Message ''Invalid OTP''), users0)
   \<and> fst (verifyOTP env0 users0 req_carol) =
        (200, Token (getSignedJwtToken env0 (carol\<lparr>isVerified := True, otp := None\<rparr>))
                (carol\<lparr>password := None, isVerified := True, otp := None\<rparr>))
   \<and> findOne_email (snd (verifyOTP env0 users0 req_carol)) (auth_email req_carol) =
        Some (carol\<lparr>isVerified := True, otp := None\<rparr>)"
proof -
  let ?p = "\<lparr>code = ''123456'', expiry = 1000\<rparr>"
  have p: "code ?p \<noteq> []" "code ?p = ''123456''" "code ?p \<noteq> ''000000''"
    "expiry ?p < 2000" "\<not> expiry ?p < 500"
    by simp_all
  have c1: "verifyOTP env0 users0 req_nobody = ((404, Message ''User not found''), users0)"
    using verifyOTP_precedence [of req_nobody users0 env0] sample_lookups sample_auth_requests
    by metis
  have c2: "verifyOTP env0 users0 req_alice_auth = ((400, Message ''Email already verified''), users0)"
    using verifyOTP_precedence [of req_alice_auth users0 env0] sample_lookups sample_auth_requests
      sample_users by metis
  have c3: "verifyOTP env0 users0 req_dave = ((400, Message ''No OTP generated for this user''), users0)"
    using verifyOTP_precedence [of req_dave users0 env0] sample_lookups sample_auth_requests
      sample_users by metis
  have c4: "verifyOTP env_late users0 req_carol = ((400, Message ''OTP expired''), users0)"
    using verifyOTP_precedence [of req_carol users0 env_late] sample_lookups sample_auth_requests
      sample_users sample_envs p by metis
  have c5: "verifyOTP env0 users0 req_carol_wrong = ((400, Message ''Invalid OTP''), users0)"
    using verifyOTP_precedence [of req_carol_wrong users0 env0] sample_lookups sample_auth_requests
      sample_users sample_envs p by metis
  have c6: "fst (verifyOTP env0 users0 req_carol) =
        (200, Token (getSignedJwtToken env0 (carol\<lparr>isVerified := True, otp := None\<rparr>))
                (carol\<lparr>password := None, isVerified := True, otp := None\<rparr>))
   \<and> findOne_email (snd (verifyOTP env0 users0 req_carol)) (auth_email req_carol) =
        Some (carol\<lparr>isVerified := True, otp := None\<rparr>)"
    using verifyOTP_precedence [of req_carol users0 env0] sample_lookups sample_auth_requests
      sample_users sample_envs p by metis
  show ?thesis using c1 c2 c3 c4 c5 c6 by blast
qed

text \<open>
  C5 (amended). For an unverified user with a pending code, a verify with that code, not
  after its expiry, succeeds and leaves the user verified without a pending code; every
  repetition of the same request, at any later time, fails with 400 "Email already
  verified" and changes nothing.
\<close>

theorem verifyOTP_single_use:
  assumes "auth_errors req = []"
    and "findOne_email users (auth_email req) = Some usr"
    and "\<not> isVerified usr"
    and "otp usr = Some p" and "code p \<noteq> []"
    and "\<not> expiry p < now e" and "code p = auth_otp req"
    and "write_error e = None"
  shows "fst (fst (verifyOTP e users req)) = 200
       \<and> findOne_email (snd (verifyOTP e users req)) (auth_email req)
           = Some (usr\<lparr>isVerified := True, otp := None\<rparr>)
       \<and> (\<forall>e'. verifyOTP e' (snd (verifyOTP e users req)) req =
                  ((400, Message ''Email already verified''), snd (verifyOTP e users req)))"
proof -
  let ?usr' = "usr\<lparr>isVerified := True, otp := None\<rparr>"
  let ?users' = "map (\<lambda>x. if user_id x = user_id usr then ?usr' else x) users"
  have run: "verifyOTP e users req =
      ((200, Token (getSignedJwtToken e ?usr') (usr\<lparr>password := None, isVerified := True, otp := None\<rparr>)),
       ?users')"
    using assms by (rule verifyOTP_success)
  have "email ?usr' = auth_email req"
    using assms(2) by (simp add: findOne_email_SomeD)
  with assms(2) have found: "findOne_email ?users' (auth_email req) = Some ?usr'"
    by (rule findOne_email_replace)
  have again: "\<And>e'. verifyOTP e' ?users' req = ((400, Message ''Email already verified''), ?users')"
    using assms(1) found by (simp add: verifyOTP_def)
  show ?thesis
    unfolding run using found again by simp
qed

text \<open>Witness for C5 (amended): Carol verifies with her pending code, then tries again.\<close>

theorem verifyOTP_single_use_witness:
  "fst (fst (verifyOTP env0 users0 req_carol)) = 200
   \<and> findOne_email (snd (verifyOTP env0 users0 req_carol)) (auth_email req_carol)
       = Some (carol\<lparr>isVerified := True, otp := None\<rparr>)
   \<and> (\<forall>e'. verifyOTP e' (snd (verifyOTP env0 users0 req_carol)) req_carol =
              ((400, Message ''Email already verified''), snd (verifyOTP env0 users0 req_carol)))"
proof -
  let ?p = "\<lparr>code = ''123456'', expiry = 1000\<rparr>"
  have p: "code ?p \<noteq> []" "\<not> expiry ?p < now env0" "code ?p = auth_otp req_carol"
    by (simp_all add: sample_envs sample_auth_requests)
  show ?thesis
    using sample_auth_requests(1) _ sample_users(2) sample_users(5) p sample_envs(3)
    by (rule verifyOTP_single_use) (simp add: sample_auth_requests sample_lookups)
qed

text \<open>
  Counterexample to C5 as stated: Carol's first verify succeeds, and the repeated one is
  answered "Email already verified", not "No OTP generated for this user".
\<close>

theorem verifyOTP_second_attempt_counterexample:
  "fst (fst (verifyOTP env0 users0 req_carol)) = 200
   \<and> fst (verifyOTP env0 (snd (verifyOTP env0 users0 req_carol)) req_carol)
       = (400, Message ''Email already verified'')
   \<and> fst (verifyOTP env0 (snd (verifyOTP env0 users0 req_carol)) req_carol)
       \<noteq> (400, Message ''No OTP generated for this user'')"
proof -
  let ?p = "\<lparr>code = ''123456'', expiry = 1000\<rparr>"
  have p: "code ?p \<noteq> []" "\<not> expiry ?p < now env0" "code ?p = auth_otp req_carol"
    by (simp_all add: sample_envs sample_auth_requests)
  have c: "findOne_email users0 (auth_email req_carol) = Some carol"
    by (simp add: sample_auth_requests sample_lookups)
  have run: "verifyOTP env0 users0 req_carol =
      ((200, Token (getSignedJwtToken env0 (carol\<lparr>isVerified := True, otp := None\<rparr>))
               (carol\<lparr>password := None, isVerified := True, otp := None\<rparr>)),
       map (\<lambda>x. if user_id x = user_id carol then carol\<lparr>isVerified := True, otp := None\<rparr> else x)
         users0)"
    using sample_auth_requests(1) c sample_users(2) sample_users(5) p sample_envs(3)
    by (rule verifyOTP_success)
  have "email (carol\<lparr>isVerified := True, otp := None\<rparr>) = auth_email req_carol"
    by (simp add: carol_def sample_auth_requests)
  with c have found: "findOne_email
       (map (\<lambda>x. if user_id x = user_id carol then carol\<lparr>isVerified := True, otp := None\<rparr> else x)
          users0) (auth_email req_carol) = Some (carol\<lparr>isVerified := True, otp := None\<rparr>)"
    by (rule findOne_email_replace)
  show ?thesis
    unfolding run using found sample_auth_requests(1) by (simp add: verifyOTP_def)
qed

section \<open>Authenticating a request\<close>

text \<open>
  C7. \<open>protect\<close> answers 401 "Not authorized to access this route" when no bearer token
  is presented (no \<open>Authorization\<close> header, a header that does not start with \<open>Bearer\<close>,
  or \<open>Bearer\<close> with nothing after it) and when \<open>jwt.verify\<close> rejects the token; 401
  "User not found" when the id in the token names no stored user; 401 "Please verify your
  email to access this route" when that user is not verified; and in every other case it
  passes the request on with the user as loaded from the store.
\<close>

theorem protect_outcomes:
  "(authorization = None \<or> (\<exists>h. authorization = Some h \<and> take 6 h \<noteq> ''Bearer'')
      \<or> authorization = Some ''Bearer'' \<or> authorization = Some ''Bearer '' \<longrightarrow>
      protect e users authorization = Rejected (401, Message ''Not authorized to access this route''))
   \<and> (\<forall>t. authorization = Some (''Bearer '' @ t) \<and> t \<noteq> [] \<and> CHR '' '' \<notin> set t \<longrightarrow>
        (\<forall>err. jwt_verify e t = Inl err \<longrightarrow>
           protect e users authorization = Rejected (401, Message ''Not authorized to access this route''))
      \<and> (\<forall>i. jwt_verify e t = Inr i \<longrightarrow>
           (findUserById users i = None \<longrightarrow>
              protect e users authorization = Rejected (401, Message ''User not found''))
         \<and> (\<forall>usr. findUserById users i = Some usr \<longrightarrow>
              (\<not> isVerified usr \<longrightarrow>
                 protect e users authorization =
                   Rejected (401, Message ''Please verify your email to access this route''))
            \<and> (isVerified usr \<longrightarrow> protect e users authorization = Next usr))))"
proof -
  have missing: "authorization = None \<or> (\<exists>h. authorization = Some h \<and> take 6 h \<noteq> ''Bearer'')
      \<or> authorization = Some ''Bearer'' \<or> authorization = Some ''Bearer '' \<Longrightarrow>
      protect e users authorization = Rejected (401, Message ''Not authorized to access this route'')"
    by (auto simp: protect_def header_token_def)
  have present: "protect e users authorization =
        (case jwt_verify e t of
           Inl err \<Rightarrow> Rejected (401, Message ''Not authorized to access this route'')
         | Inr i \<Rightarrow>
             (case findUserById users i of
                None \<Rightarrow> Rejected (401, Message ''User not found'')
              | Some usr \<Rightarrow>
                  if \<not> isVerified usr
                  then Rejected (401, Message ''Please verify your email to access this route'')
                  else Next usr))"
    if a: "authorization = Some (''Bearer '' @ t)" and n: "t \<noteq> []" and s: "CHR '' '' \<notin> set t" for t
  proof -
    have "header_token authorization = Some t"
      unfolding a using s by (rule header_token_Bearer)
    then show ?thesis using n by (simp add: protect_def)
  qed
  show ?thesis
    using missing present by (auto split: sum.splits option.splits)
qed

text \<open>Witness for C7: no header, a malformed token, a token for a user that does not
  exist, Carol's token while she is unverified, and Alice's token.\<close>

theorem protect_outcomes_witness:
  "protect env0 users0 None = Rejected (401, Message ''Not authorized to access this route'')
   \<and> protect env0 users0 (Some (''Bearer '' @ ''garbage'')) =
        Rejected (401, Message ''Not authorized to access this route'')
   \<and> protect env0 users0 (Some (''Bearer '' @ ''tok-zz'')) = Rejected (401, Message ''User not found'')
   \<and> protect env0 users0 (Some (''Bearer '' @ ''tok-c3'')) =
        Rejected (401, Message ''Please verify your email to access this route'')
   \<and> protect env0 users0 (Some (''Bearer '' @ ''tok-a1'')) = Next alice"
proof -
  have j: "jwt_verify env0 ''garbage'' = Inl ''jwt malformed''"
    "jwt_verify env0 ''tok-zz'' = Inr ''zz''"
    "jwt_verify env0 ''tok-c3'' = Inr ''c3''"
    "jwt_verify env0 ''tok-a1'' = Inr ''a1''"
    by (simp_all add: env0_def)
  have u: "findUserById users0 ''zz'' = None" "findUserById users0 ''c3'' = Some carol"
    "findUserById users0 ''a1'' = Some alice"
    by (simp_all add: findUserById_def users0_def alice_def bob_def carol_def dave_def)
  have t: "''garbage'' \<noteq> []" "CHR '' '' \<notin> set ''garbage''"
    "''tok-zz'' \<noteq> []" "CHR '' '' \<notin> set ''tok-zz''"
    "''tok-c3'' \<noteq> []" "CHR '' '' \<notin> set ''tok-c3''"
    "''tok-a1'' \<noteq> []" "CHR '' '' \<notin> set ''tok-a1''"
    by simp_all
  have c1: "protect env0 users0 None = Rejected (401, Message ''Not authorized to access this route'')"
    using protect_outcomes [of None env0 users0] by blast
  have c2: "protect env0 users0 (Some (''Bearer '' @ ''garbage'')) =
        Rejected (401, Message ''Not authorized to access this route'')"
    using protect_outcomes [of "Some (''Bearer '' @ ''garbage'')" env0 users0] j(1) t(1,2) by blast
  have c3: "protect env0 users0 (Some (''Bearer '' @ ''tok-zz'')) = Rejected (401, Message ''User not found'')"
    using protect_outcomes [of "Some (''Bearer '' @ ''tok-zz'')" env0 users0] j(2) u(1) t(3,4) by blast
  have c4: "protect env0 users0 (Some (''Bearer '' @ ''tok-c3'')) =
        Rejected (401, Message ''Please verify your email to access this route'')"
    using protect_outcomes [of "Some (''Bearer '' @ ''tok-c3'')" env0 users0] j(3) u(2) t(5,6)
      sample_users(2) by blast
  have c5: "protect env0 users0 (Some (''Bearer '' @ ''tok-a1'')) = Next alice"
    using protect_outcomes [of "Some (''Bearer '' @ ''tok-a1'')" env0 users0] j(4) u(3) t(7,8)
      sample_users(1) by blast
  show ?thesis using c1 c2 c3 c4 c5 by (intro conjI) assumption+
qed

section \<open>What a token response shows of the user\<close>

text \<open>
  C10. \<open>sendTokenResponse\<close> removes the password hash and the pending code from the user
  it returns: for two user stores that differ only in password hashes and pending codes,
  whenever \<open>verifyOTP\<close> succeeds on both, and whenever \<open>login\<close> succeeds on both, the two
  bodies carry the same user object, with neither a password nor a code in it; only the
  token may differ.
\<close>

theorem token_responses_hide_secrets:
  assumes "list_all2 same_but_secrets users users'"
  shows "(\<forall>b b' us us'.
            verifyOTP e users req = ((200, b), us) \<and> verifyOTP e' users' req = ((200, b'), us') \<longrightarrow>
            (\<exists>t t' u. b = Token t u \<and> b' = Token t' u \<and> password u = None \<and> otp u = None))
       \<and> (\<forall>b b'.
            login e users req = (200, b) \<and> login e' users' req = (200, b') \<longrightarrow>
            (\<exists>t t' u. b = Token t u \<and> b' = Token t' u \<and> password u = None \<and> otp u = None))"
proof (intro conjI allI impI)
  fix b b' us us'
  assume "verifyOTP e users req = ((200, b), us) \<and> verifyOTP e' users' req = ((200, b'), us')"
  then obtain usr usr' where
    f: "findOne_email users (auth_email req) = Some usr" and
    b: "b = Token (getSignedJwtToken e (usr\<lparr>isVerified := True, otp := None\<rparr>))
               (usr\<lparr>password := None, isVerified := True, otp := None\<rparr>)" and
    f': "findOne_email users' (auth_email req) = Some usr'" and
    b': "b' = Token (getSignedJwtToken e' (usr'\<lparr>isVerified := True, otp := None\<rparr>))
               (usr'\<lparr>password := None, isVerified := True, otp := None\<rparr>)"
    by (blast dest: verifyOTP_200D)
  from findOne_email_related [OF assms f] f' have "same_but_secrets usr usr'" by simp
  then have "usr'\<lparr>password := None, otp := None\<rparr> = usr\<lparr>password := None, otp := None\<rparr>"
    by (rule same_but_secrets_scrub)
  then have "usr'\<lparr>password := None, isVerified := True, otp := None\<rparr>
           = usr\<lparr>password := None, isVerified := True, otp := None\<rparr>"
    by (cases usr; cases usr') simp
  with b b' show "\<exists>t t' u. b = Token t u \<and> b' = Token t' u \<and> password u = None \<and> otp u = None"
    by simp
next
  fix b b'
  assume "login e users req = (200, b) \<and> login e' users' req = (200, b')"
  then obtain usr usr' where
    f: "findOne_email users (auth_email req) = Some usr" and
    b: "b = Token (getSignedJwtToken e usr) (usr\<lparr>password := None, otp := None\<rparr>)" and
    f': "findOne_email users' (auth_email req) = Some usr'" and
    b': "b' = Token (getSignedJwtToken e' usr') (usr'\<lparr>password := None, otp := None\<rparr>)"
    by (blast dest: login_200D)
  from findOne_email_related [OF assms f] f' have "same_but_secrets usr usr'" by simp
  then have "usr'\<lparr>password := None, otp := None\<rparr> = usr\<lparr>password := None, otp := None\<rparr>"
    by (rule same_but_secrets_scrub)
  with b b' show "\<exists>t t' u. b = Token t u \<and> b' = Token t' u \<and> password u = None \<and> otp u = None"
    by simp
qed

text \<open>Witness for C10: the sample store and a copy of it with other password hashes;
  Carol verifies and Alice logs in on both.\<close>

theorem token_responses_hide_secrets_witness:
  "list_all2 same_but_secrets users0 users0_rehashed
   \<and> (\<exists>b b' us us'.
         verifyOTP env0 users0 req_carol = ((200, b), us)
       \<and> verifyOTP env0 users0_rehashed req_carol = ((200, b'), us')
       \<and> (\<exists>t t' u. b = Token t u \<and> b' = Token t' u \<and> password u = None \<and> otp u = None))
   \<and> (\<exists>b b'.
         login env0 users0 req_alice_auth = (200, b)
       \<and> login env0 users0_rehashed req_alice_auth = (200, b')
       \<and> (\<exists>t t' u. b = Token t u \<and> b' = Token t' u \<and> password u = None \<and> otp u = None))"
proof -
  note th = token_responses_hide_secrets [OF sample_rehashed(1)]
  obtain b us b' us' where
    r: "verifyOTP env0 users0 req_carol = ((200, b), us)"
       "verifyOTP env0 users0_rehashed req_carol = ((200, b'), us')"
    using sample_verify_runs by blast
  have x: "\<exists>t t' u. b = Token t u \<and> b' = Token t' u \<and> password u = None \<and> otp u = None"
    by (rule th [of env0 req_carol env0, THEN conjunct1, rule_format]) (simp add: r)
  have v: "\<exists>b b' us us'.
         verifyOTP env0 users0 req_carol = ((200, b), us)
       \<and> verifyOTP env0 users0_rehashed req_carol = ((200, b'), us')
       \<and> (\<exists>t t' u. b = Token t u \<and> b' = Token t' u \<and> password u = None \<and> otp u = None)"
    by (rule exI [where x = b], rule exI [where x = b'], rule exI [where x = us],
        rule exI [where x = us'], intro conjI r x)
  obtain c c' where
    q: "login env0 users0 req_alice_auth = (200, c)"
       "login env0 users0_rehashed req_alice_auth = (200, c')"
    using sample_login_runs by blast
  have y: "\<exists>t t' u. c = Token t u \<and> c' = Token t' u \<and> password u = None \<and> otp u = None"
    by (rule th [of env0 req_alice_auth env0, THEN conjunct2, rule_format]) (simp add: q)
  have l: "\<exists>b b'.
         login env0 users0 req_alice_auth = (200, b)
       \<and> login env0 users0_rehashed req_alice_auth = (200, b')
       \<and> (\<exists>t t' u. b = Token t u \<and> b' = Token t' u \<and> password u = None \<and> otp u = None)"
    by (rule exI [where x = c], rule exI [where x = c'], intro conjI q y)
  show ?thesis using sample_rehashed(1) v l by (intro conjI) assumption+
qed

section \<open>Sharing a document\<close>

text \<open>
  C2. In every reachable document store, when the share list of a document already has
  an entry for the user that the owner's grant names by email, \<open>shareDocument\<close> answers
  400 "Document already shared with this user" and leaves the store as it was. In
  particular a grant that succeeded is followed, for any access level and at any later
  time, by this refusal, and the user's only entry keeps the level of the first grant.
  So no share list of a reachable store holds two entries for one user.
\<close>

theorem shareDocument_one_entry_per_user:
  assumes "reachable docs"
  shows "(\<forall>doc usr. errors req = [] \<and> findById docs (params_id req) = Some doc
             \<and> owner doc = user_id (req_user req)
             \<and> findOne_email users (body_email req) = Some usr
             \<and> (\<exists>s \<in> set (sharedWith doc). user s = Some (user_id usr)) \<longrightarrow>
            shareDocument e users docs req =
              ((400, Message ''Document already shared with this user''), docs))
       \<and> (\<forall>b docs1 lvl e'. shareDocument e users docs req = ((200, b), docs1) \<longrightarrow>
            shareDocument e' users docs1 (req\<lparr>body_accessLevel := lvl\<rparr>) =
              ((400, Message ''Document already shared with this user''), docs1)
          \<and> (\<exists>doc1 usr. findById docs1 (params_id req) = Some doc1
                \<and> findOne_email users (body_email req) = Some usr
                \<and> filter (\<lambda>s. user s = Some (user_id usr)) (sharedWith doc1) =
                    [\<lparr>user = Some (user_id usr), accessLevel = body_accessLevel req,
                      sharedAt = now e\<rparr>]))
       \<and> (\<forall>d \<in> set docs. \<forall>uid. length (filter (\<lambda>s. user s = Some uid) (sharedWith d)) \<le> 1)"
proof -
  have p1: "\<forall>doc usr. errors req = [] \<and> findById docs (params_id req) = Some doc
             \<and> owner doc = user_id (req_user req)
             \<and> findOne_email users (body_email req) = Some usr
             \<and> (\<exists>s \<in> set (sharedWith doc). user s = Some (user_id usr)) \<longrightarrow>
            shareDocument e users docs req =
              ((400, Message ''Document already shared with this user''), docs)"
  proof (intro allI impI)
    fix doc usr
    assume a: "errors req = [] \<and> findById docs (params_id req) = Some doc
             \<and> owner doc = user_id (req_user req)
             \<and> findOne_email users (body_email req) = Some usr
             \<and> (\<exists>s \<in> set (sharedWith doc). user s = Some (user_id usr))"
    then have "shares_ok doc" using assms reachable_shares_ok by blast
    then have "Some (owner doc) \<notin> set (map user (sharedWith doc))" by (simp add: shares_ok_def)
    with a have "user_id usr \<noteq> user_id (req_user req)" by force
    with a show "shareDocument e users docs req =
              ((400, Message ''Document already shared with this user''), docs)"
      by (intro shareDocument_already) blast+
  qed
  have p2: "\<forall>b docs1 lvl e'. shareDocument e users docs req = ((200, b), docs1) \<longrightarrow>
            shareDocument e' users docs1 (req\<lparr>body_accessLevel := lvl\<rparr>) =
              ((400, Message ''Document already shared with this user''), docs1)
          \<and> (\<exists>doc1 usr. findById docs1 (params_id req) = Some doc1
                \<and> findOne_email users (body_email req) = Some usr
                \<and> filter (\<lambda>s. user s = Some (user_id usr)) (sharedWith doc1) =
                    [\<lparr>user = Some (user_id usr), accessLevel = body_accessLevel req,
                      sharedAt = now e\<rparr>])"
  proof (intro allI impI)
    fix b docs1 lvl e'
    assume run: "shareDocument e users docs req = ((200, b), docs1)"
    let ?new = "\<lambda>usr. \<lparr>user = Some (user_id usr), accessLevel = body_accessLevel req, sharedAt = now e\<rparr>"
    from shareDocument_200D [OF run] obtain doc and usr :: user_rec where
      er: "errors req = []" and f: "findById docs (params_id req) = Some doc" and
      o: "owner doc = user_id (req_user req)" and
      u: "findOne_email users (body_email req) = Some usr" and
      ne: "user_id usr \<noteq> user_id (req_user req)" and
      n: "find (\<lambda>s. user s = Some (user_id usr)) (sharedWith doc) = None" and
      d1: "docs1 = map (\<lambda>x. if doc_id x = params_id req
                            then doc\<lparr>sharedWith := sharedWith doc @ [?new usr], updatedAt := now e\<rparr>
                            else x) docs"
      by blast
    let ?doc1 = "doc\<lparr>sharedWith := sharedWith doc @ [?new usr], updatedAt := now e\<rparr>"
    have i: "doc_id ?doc1 = params_id req" using f by (simp add: findById_SomeD)
    have f1: "findById docs1 (params_id req) = Some ?doc1"
      unfolding d1 using f i by (rule findById_replace)
    have only: "filter (\<lambda>s. user s = Some (user_id usr)) (sharedWith ?doc1) = [?new usr]"
      using find_None_filter [OF n] by simp
    have "shareDocument e' users docs1 (req\<lparr>body_accessLevel := lvl\<rparr>) =
              ((400, Message ''Document already shared with this user''), docs1)"
      by (rule shareDocument_already [where doc = ?doc1 and usr = usr])
         (use er f1 o u ne in simp_all)
    then show "shareDocument e' users docs1 (req\<lparr>body_accessLevel := lvl\<rparr>) =
              ((400, Message ''Document already shared with this user''), docs1)
          \<and> (\<exists>doc1 usr. findById docs1 (params_id req) = Some doc1
                \<and> findOne_email users (body_email req) = Some usr
                \<and> filter (\<lambda>s. user s = Some (user_id usr)) (sharedWith doc1) =
                    [\<lparr>user = Some (user_id usr), accessLevel = body_accessLevel req,
                      sharedAt = now e\<rparr>])"
      using f1 u only by blast
  qed
  have p3: "\<forall>d \<in> set docs. \<forall>uid. length (filter (\<lambda>s. user s = Some uid) (sharedWith d)) \<le> 1"
  proof (intro ballI allI)
    fix d uid
    assume "d \<in> set docs"
    then have "shares_ok d" using reachable_store_ok [OF assms] by (simp add: store_ok_def)
    then have "distinct (map user (sharedWith d))" by (simp add: shares_ok_def)
    then show "length (filter (\<lambda>s. user s = Some uid) (sharedWith d)) \<le> 1"
      by (rule distinct_map_filter_le1)
  qed
  show ?thesis by (intro conjI p1 p2 p3)
qed

text \<open>Witness for C2: Alice shares with Bob twice, once on a store where Bob already
  has an entry and once view first, edit second.\<close>

theorem shareDocument_one_entry_per_user_witness:
  "reachable [doc1_shared]
   \<and> shareDocument env_late users0 [doc1_shared] req_alice =
       ((400, Message ''Document already shared with this user''), [doc1_shared])
   \<and> reachable [doc1]
   \<and> shareDocument env0 users0 [doc1] req_alice_view =
       ((200, MessageData ''Document shared with Bob'' doc1_viewed), [doc1_viewed])
   \<and> shareDocument env_late users0 [doc1_viewed] (req_alice_view\<lparr>body_accessLevel := Edit\<rparr>) =
       ((400, Message ''Document already shared with this user''), [doc1_viewed])
   \<and> (\<exists>d usr. findById [doc1_viewed] (params_id req_alice_view) = Some d
         \<and> findOne_email users0 (body_email req_alice_view) = Some usr
         \<and> filter (\<lambda>s. user s = Some (user_id usr)) (sharedWith d) =
             [\<lparr>user = Some (user_id usr), accessLevel = body_accessLevel req_alice_view,
               sharedAt = now env0\<rparr>])
   \<and> length (filter (\<lambda>s. user s = Some ''b2'') (sharedWith doc1_shared)) \<le> 1"
proof -
  note th = shareDocument_one_entry_per_user [OF sample_reachable(2), of req_alice users0 env_late]
  note th' = shareDocument_one_entry_per_user [OF sample_reachable(1), of req_alice_view users0 env0]
  have b: "findOne_email users0 (body_email req_alice) = Some bob" "user_id bob = ''b2''"
    by (simp_all add: sample_lookups sample_doc_requests bob_def)
  have h: "errors req_alice = [] \<and> findById [doc1_shared] (params_id req_alice) = Some doc1_shared
             \<and> owner doc1_shared = user_id (req_user req_alice)
             \<and> findOne_email users0 (body_email req_alice) = Some bob
             \<and> (\<exists>s \<in> set (sharedWith doc1_shared). user s = Some (user_id bob))"
    by (simp add: sample_doc_requests sample_docs sample_lookups b(2))
  note c1 = th [THEN conjunct1, rule_format, OF h]
  note c2 = th' [THEN conjunct2, THEN conjunct1, rule_format, OF sample_share_view]
  have m: "doc1_shared \<in> set [doc1_shared]" by simp
  note c3 = th [THEN conjunct2, THEN conjunct2, rule_format, OF m, of "''b2''"]
  show ?thesis
    by (intro conjI sample_reachable c1 sample_share_view c2 [THEN conjunct1]
          c2 [THEN conjunct2] c3)
qed

text \<open>
  C3. For an existing document and a requester who is not its owner, \<open>shareDocument\<close>,
  \<open>updateSharing\<close> and \<open>removeSharing\<close> answer 403 and change nothing, whatever shares
  the requester holds (the first two after the route's validators passed); yet in a
  reachable store \<open>updateDocument\<close> by such a requester who holds an edit share succeeds,
  when the store accepts the write: 200, with the three fields and \<open>updatedAt\<close> replaced.
\<close>

theorem sharing_management_owner_only:
  assumes "findById docs (params_id req) = Some doc"
    and "owner doc \<noteq> user_id (req_user req)"
  shows "(errors req = [] \<longrightarrow>
            shareDocument e users docs req =
              ((403, Message ''Not authorized to share this document''), docs))
       \<and> (errors req = [] \<longrightarrow>
            updateSharing e docs req =
              ((403, Message ''Not authorized to update sharing for this document''), docs))
       \<and> removeSharing e docs req =
            ((403, Message ''Not authorized to remove sharing for this document''), docs)
       \<and> (reachable docs \<and> errors req = [] \<and> write_error e = None
            \<and> (\<exists>s \<in> set (sharedWith doc).
                  user s = Some (user_id (req_user req)) \<and> accessLevel s = Edit) \<longrightarrow>
            fst (updateDocument e docs req) =
              (200, Data (doc\<lparr>title := trim (body_title req), description := body_description req,
                              documentType := body_documentType req, updatedAt := now e\<rparr>))
          \<and> findById (snd (updateDocument e docs req)) (params_id req) =
              Some (doc\<lparr>title := trim (body_title req), description := body_description req,
                        documentType := body_documentType req, updatedAt := now e\<rparr>))"
proof -
  let ?doc' = "doc\<lparr>title := trim (body_title req), description := body_description req,
                   documentType := body_documentType req, updatedAt := now e\<rparr>"
  have p1: "errors req = [] \<longrightarrow>
            shareDocument e users docs req =
              ((403, Message ''Not authorized to share this document''), docs)"
    using assms by (simp add: shareDocument_def)
  have p2: "errors req = [] \<longrightarrow>
            updateSharing e docs req =
              ((403, Message ''Not authorized to update sharing for this document''), docs)"
    using assms by (simp add: updateSharing_def)
  have p3: "removeSharing e docs req =
            ((403, Message ''Not authorized to remove sharing for this document''), docs)"
    using assms by (simp add: removeSharing_def)
  have p4: "reachable docs \<and> errors req = [] \<and> write_error e = None
            \<and> (\<exists>s \<in> set (sharedWith doc).
                  user s = Some (user_id (req_user req)) \<and> accessLevel s = Edit) \<longrightarrow>
            fst (updateDocument e docs req) = (200, Data ?doc')
          \<and> findById (snd (updateDocument e docs req)) (params_id req) = Some ?doc'"
  proof
    assume a: "reachable docs \<and> errors req = [] \<and> write_error e = None
            \<and> (\<exists>s \<in> set (sharedWith doc).
                  user s = Some (user_id (req_user req)) \<and> accessLevel s = Edit)"
    then have "shares_ok doc" using assms(1) reachable_shares_ok by blast
    then have "\<forall>s \<in> set (sharedWith doc). user s \<noteq> None" by (simp add: shares_ok_def)
    with a have "\<exists>s. find_edit_share (sharedWith doc) (user_id (req_user req)) = Inr (Some s)"
      by (intro find_edit_share_found) blast+
    then have run: "updateDocument e docs req =
        ((200, Data ?doc'), map (\<lambda>x. if doc_id x = params_id req then ?doc' else x) docs)"
      using a assms(1) by (intro updateDocument_authorised) blast+
    have "doc_id ?doc' = params_id req" using assms(1) by (simp add: findById_SomeD)
    with assms(1) have "findById (map (\<lambda>x. if doc_id x = params_id req then ?doc' else x) docs)
        (params_id req) = Some ?doc'"
      by (rule findById_replace)
    then show "fst (updateDocument e docs req) = (200, Data ?doc')
          \<and> findById (snd (updateDocument e docs req)) (params_id req) = Some ?doc'"
      unfolding run by simp
  qed
  show ?thesis by (intro conjI p1 p2 p3 p4)
qed

text \<open>Witness for C3: Bob holds an edit share on Alice's document.\<close>

theorem sharing_management_owner_only_witness:
  "findById [doc1_shared] (params_id req_bob) = Some doc1_shared
   \<and> owner doc1_shared \<noteq> user_id (req_user req_bob)
   \<and> shareDocument env_late users0 [doc1_shared] req_bob =
       ((403, Message ''Not authorized to share this document''), [doc1_shared])
   \<and> updateSharing env_late [doc1_shared] req_bob =
       ((403, Message ''Not authorized to update sharing for this document''), [doc1_shared])
   \<and> removeSharing env_late [doc1_shared] req_bob =
       ((403, Message ''Not authorized to remove sharing for this document''), [doc1_shared])
   \<and> fst (updateDocument env_late [doc1_shared] req_bob) =
       (200, Data (doc1_shared\<lparr>title := trim (body_title req_bob),
                     description := body_description req_bob,
                     documentType := body_documentType req_bob, updatedAt := now env_late\<rparr>))
   \<and> findById (snd (updateDocument env_late [doc1_shared] req_bob)) (params_id req_bob) =
       Some (doc1_shared\<lparr>title := trim (body_title req_bob),
                 description := body_description req_bob,
                 documentType := body_documentType req_bob, updatedAt := now env_late\<rparr>)"
proof -
  have f: "findById [doc1_shared] (params_id req_bob) = Some doc1_shared"
    and n: "owner doc1_shared \<noteq> user_id (req_user req_bob)"
    and e: "errors req_bob = []"
    by (simp_all add: sample_doc_requests sample_docs)
  note th = sharing_management_owner_only [OF f n, of env_late users0]
  have h: "reachable [doc1_shared] \<and> errors req_bob = [] \<and> write_error env_late = None
            \<and> (\<exists>s \<in> set (sharedWith doc1_shared).
                  user s = Some (user_id (req_user req_bob)) \<and> accessLevel s = Edit)"
    by (simp add: sample_reachable sample_doc_requests sample_docs env_late_def env0_def)
  note c1 = th [THEN conjunct1, rule_format, OF e]
  note c2 = th [THEN conjunct2, THEN conjunct1, rule_format, OF e]
  note c3 = th [THEN conjunct2, THEN conjunct2, THEN conjunct1]
  note c4 = th [THEN conjunct2, THEN conjunct2, THEN conjunct2, rule_format, OF h]
  show ?thesis
    by (intro conjI f n c1 c2 c3 c4 [THEN conjunct1] c4 [THEN conjunct2])
qed

section \<open>Timestamps and ownership under mutation\<close>

text \<open>
  C8. Whenever \<open>updateDocument\<close>, \<open>shareDocument\<close>, \<open>updateSharing\<close> or \<open>removeSharing\<close>
  answers 200 for an existing document, the stored document afterwards has \<open>updatedAt\<close>
  equal to the time of the request, and the \<open>createdAt\<close> and \<open>owner\<close> it had before.
\<close>

theorem mutations_refresh_updatedAt:
  assumes "findById docs (params_id req) = Some doc"
  shows "(\<forall>b docs'. updateDocument e docs req = ((200, b), docs') \<longrightarrow>
            (\<exists>doc'. findById docs' (params_id req) = Some doc' \<and> updatedAt doc' = now e
                   \<and> createdAt doc' = createdAt doc \<and> owner doc' = owner doc))
       \<and> (\<forall>b docs'. shareDocument e users docs req = ((200, b), docs') \<longrightarrow>
            (\<exists>doc'. findById docs' (params_id req) = Some doc' \<and> updatedAt doc' = now e
                   \<and> createdAt doc' = createdAt doc \<and> owner doc' = owner doc))
       \<and> (\<forall>b docs'. updateSharing e docs req = ((200, b), docs') \<longrightarrow>
            (\<exists>doc'. findById docs' (params_id req) = Some doc' \<and> updatedAt doc' = now e
                   \<and> createdAt doc' = createdAt doc \<and> owner doc' = owner doc))
       \<and> (\<forall>b docs'. removeSharing e docs req = ((200, b), docs') \<longrightarrow>
            (\<exists>doc'. findById docs' (params_id req) = Some doc' \<and> updatedAt doc' = now e
                   \<and> createdAt doc' = createdAt doc \<and> owner doc' = owner doc))"
proof -
  have i: "doc_id doc = params_id req"
    using assms by (simp add: findById_SomeD)
  have stamp: "\<exists>doc'. findById (map (\<lambda>x. if doc_id x = params_id req then d' else x) docs) (params_id req)
                  = Some doc' \<and> updatedAt doc' = now e
                   \<and> createdAt doc' = createdAt doc \<and> owner doc' = owner doc"
    if "doc_id d' = params_id req" "updatedAt d' = now e" "createdAt d' = createdAt doc"
       "owner d' = owner doc" for d'
    using findById_replace [OF assms that(1)] that(2-4) by simp
  have fresh: "\<exists>doc'. findById docs' (params_id req) = Some doc' \<and> updatedAt doc' = now e
                   \<and> createdAt doc' = createdAt doc \<and> owner doc' = owner doc"
    if "\<exists>d'. docs' = map (\<lambda>x. if doc_id x = params_id req then d' else x) docs
             \<and> doc_id d' = params_id req \<and> updatedAt d' = now e
             \<and> createdAt d' = createdAt doc \<and> owner d' = owner doc" for docs'
    using that stamp by blast
  show ?thesis
  proof (intro conjI allI impI)
    fix b docs' assume "updateDocument e docs req = ((200, b), docs')"
    from updateDocument_200D [OF this] assms i
    show "\<exists>doc'. findById docs' (params_id req) = Some doc' \<and> updatedAt doc' = now e
                   \<and> createdAt doc' = createdAt doc \<and> owner doc' = owner doc"
      by (intro fresh) auto
  next
    fix b docs' assume "shareDocument e users docs req = ((200, b), docs')"
    from shareDocument_200D [OF this] assms i
    show "\<exists>doc'. findById docs' (params_id req) = Some doc' \<and> updatedAt doc' = now e
                   \<and> createdAt doc' = createdAt doc \<and> owner doc' = owner doc"
      by (intro fresh) auto
  next
    fix b docs' assume "updateSharing e docs req = ((200, b), docs')"
    from updateSharing_200D [OF this] assms i
    show "\<exists>doc'. findById docs' (params_id req) = Some doc' \<and> updatedAt doc' = now e
                   \<and> createdAt doc' = createdAt doc \<and> owner doc' = owner doc"
      by (intro fresh) auto
  next
    fix b docs' assume "removeSharing e docs req = ((200, b), docs')"
    from removeSharing_200D [OF this] assms i
    show "\<exists>doc'. findById docs' (params_id req) = Some doc' \<and> updatedAt doc' = now e
                   \<and> createdAt doc' = createdAt doc \<and> owner doc' = owner doc"
      by (intro fresh) auto
  qed
qed

text \<open>Witness for C8: the four mutations by Alice at time 2000 on a document created at
  time 500.\<close>

theorem mutations_refresh_updatedAt_witness:
  "findById [doc1_shared] (params_id req_alice) = Some doc1_shared
   \<and> findById [doc1] (params_id req_alice) = Some doc1
   \<and> (\<exists>b docs'. updateDocument env_late [doc1_shared] req_alice = ((200, b), docs')
        \<and> (\<exists>doc'. findById docs' (params_id req_alice) = Some doc' \<and> updatedAt doc' = now env_late
               \<and> createdAt doc' = createdAt doc1_shared \<and> owner doc' = owner doc1_shared))
   \<and> (\<exists>b docs'. shareDocument env_late users0 [doc1] req_alice = ((200, b), docs')
        \<and> (\<exists>doc'. findById docs' (params_id req_alice) = Some doc' \<and> updatedAt doc' = now env_late
               \<and> createdAt doc' = createdAt doc1 \<and> owner doc' = owner doc1))
   \<and> (\<exists>b docs'. updateSharing env_late [doc1_shared] req_alice = ((200, b), docs')
        \<and> (\<exists>doc'. findById docs' (params_id req_alice) = Some doc' \<and> updatedAt doc' = now env_late
               \<and> createdAt doc' = createdAt doc1_shared \<and> owner doc' = owner doc1_shared))
   \<and> (\<exists>b docs'. removeSharing env_late [doc1_shared] req_alice = ((200, b), docs')
        \<and> (\<exists>doc'. findById docs' (params_id req_alice) = Some doc' \<and> updatedAt doc' = now env_late
               \<and> createdAt doc' = createdAt doc1_shared \<and> owner doc' = owner doc1_shared))"
proof -
  have f1: "findById [doc1] (params_id req_alice) = Some doc1"
    and f2: "findById [doc1_shared] (params_id req_alice) = Some doc1_shared"
    by (simp_all add: sample_doc_requests sample_docs)
  note th1 = mutations_refresh_updatedAt [OF f1, of env_late users0]
  note th2 = mutations_refresh_updatedAt [OF f2, of env_late users0]
  obtain b1 d1 where r1: "updateDocument env_late [doc1_shared] req_alice = ((200, b1), d1)"
    using sample_late_runs(1) by blast
  obtain b2 d2 where r2: "shareDocument env_late users0 [doc1] req_alice = ((200, b2), d2)"
    using sample_late_runs(2) by blast
  obtain b3 d3 where r3: "updateSharing env_late [doc1_shared] req_alice = ((200, b3), d3)"
    using sample_late_runs(3) by blast
  obtain b4 d4 where r4: "removeSharing env_late [doc1_shared] req_alice = ((200, b4), d4)"
    using sample_late_runs(4) by blast
  note x1 = th2 [THEN conjunct1, rule_format, OF r1]
  note x2 = th1 [THEN conjunct2, THEN conjunct1, rule_format, OF r2]
  note x3 = th2 [THEN conjunct2, THEN conjunct2, THEN conjunct1, rule_format, OF r3]
  note x4 = th2 [THEN conjunct2, THEN conjunct2, THEN conjunct2, rule_format, OF r4]
  show ?thesis
    apply (intro conjI f1 f2)
       apply (rule exI [where x = b1], rule exI [where x = d1], intro conjI r1 x1)
      apply (rule exI [where x = b2], rule exI [where x = d2], intro conjI r2 x2)
     apply (rule exI [where x = b3], rule exI [where x = d3], intro conjI r3 x3)
    apply (rule exI [where x = b4], rule exI [where x = d4], intro conjI r4 x4)
    done
qed

section \<open>The owner is never a share target\<close>

text \<open>
  C9. In every reachable document store no entry of a document's share list names the
  document's owner. The steps behind it: \<open>shareDocument\<close> refuses a target equal to the
  requesting owner with 400 "Cannot share document with yourself" and leaves the store
  unchanged; a document is created with an empty share list; \<open>updateSharing\<close> keeps the
  users of the list as they are, and \<open>removeSharing\<close> leaves a sublist.
\<close>

theorem owner_never_in_sharedWith:
  "(reachable docs \<longrightarrow> (\<forall>d \<in> set docs. \<forall>s \<in> set (sharedWith d). user s \<noteq> Some (owner d)))
   \<and> (errors req = [] \<and> findById docs (params_id req) = Some doc
        \<and> owner doc = user_id (req_user req)
        \<and> findOne_email users (body_email req) = Some usr
        \<and> user_id usr = user_id (req_user req) \<longrightarrow>
        shareDocument e users docs req =
          ((400, Message ''Cannot share document with yourself''), docs))
   \<and> (\<forall>d docs'. uploadDocument e docs req = ((201, Data d), docs') \<longrightarrow> sharedWith d = [])
   \<and> (\<forall>b docs' doc'. findById docs (params_id req) = Some doc
          \<and> updateSharing e docs req = ((200, b), docs')
          \<and> findById docs' (params_id req) = Some doc' \<longrightarrow>
          map user (sharedWith doc') = map user (sharedWith doc))
   \<and> (\<forall>b docs' doc'. findById docs (params_id req) = Some doc
          \<and> removeSharing e docs req = ((200, b), docs')
          \<and> findById docs' (params_id req) = Some doc' \<longrightarrow>
          set (sharedWith doc') \<subseteq> set (sharedWith doc))"
proof -
  have p1: "reachable docs \<longrightarrow> (\<forall>d \<in> set docs. \<forall>s \<in> set (sharedWith d). user s \<noteq> Some (owner d))"
  proof (intro impI ballI)
    fix d s
    assume "reachable docs" "d \<in> set docs" "s \<in> set (sharedWith d)"
    then have "shares_ok d" "s \<in> set (sharedWith d)"
      using reachable_store_ok by (simp_all add: store_ok_def)
    then have "Some (owner d) \<notin> user ` set (sharedWith d)" "user s \<in> user ` set (sharedWith d)"
      by (simp_all add: shares_ok_def)
    then show "user s \<noteq> Some (owner d)" by metis
  qed
  have p2: "errors req = [] \<and> findById docs (params_id req) = Some doc
        \<and> owner doc = user_id (req_user req)
        \<and> findOne_email users (body_email req) = Some usr
        \<and> user_id usr = user_id (req_user req) \<longrightarrow>
        shareDocument e users docs req =
          ((400, Message ''Cannot share document with yourself''), docs)"
    by (simp add: shareDocument_def)
  have p3: "\<forall>d docs'. uploadDocument e docs req = ((201, Data d), docs') \<longrightarrow> sharedWith d = []"
    by (auto simp: uploadDocument_def Document_create_def Let_def
             split: if_splits option.splits sum.splits)
  have p4: "\<forall>b docs' doc'. findById docs (params_id req) = Some doc
          \<and> updateSharing e docs req = ((200, b), docs')
          \<and> findById docs' (params_id req) = Some doc' \<longrightarrow>
          map user (sharedWith doc') = map user (sharedWith doc)"
  proof (intro allI impI)
    fix b docs' doc'
    assume a: "findById docs (params_id req) = Some doc
          \<and> updateSharing e docs req = ((200, b), docs')
          \<and> findById docs' (params_id req) = Some doc'"
    then obtain i where
      d: "docs' = map (\<lambda>x. if doc_id x = params_id req
                          then doc\<lparr>sharedWith := (sharedWith doc)
                                 [i := (sharedWith doc ! i)\<lparr>accessLevel := body_accessLevel req\<rparr>],
                                 updatedAt := now e\<rparr>
                          else x) docs"
      using updateSharing_200D [of e docs req b docs'] by auto
    let ?d = "doc\<lparr>sharedWith := (sharedWith doc)
                 [i := (sharedWith doc ! i)\<lparr>accessLevel := body_accessLevel req\<rparr>],
                 updatedAt := now e\<rparr>"
    from a have f: "findById docs (params_id req) = Some doc"
      and f': "findById docs' (params_id req) = Some doc'" by blast+
    have "doc_id ?d = params_id req" using f by (simp add: findById_SomeD)
    with f have "findById docs' (params_id req) = Some ?d"
      unfolding d by (rule findById_replace)
    with f' have "doc' = ?d" by simp
    then show "map user (sharedWith doc') = map user (sharedWith doc)"
      by (simp add: map_user_update_level)
  qed
  have p5: "\<forall>b docs' doc'. findById docs (params_id req) = Some doc
          \<and> removeSharing e docs req = ((200, b), docs')
          \<and> findById docs' (params_id req) = Some doc' \<longrightarrow>
          set (sharedWith doc') \<subseteq> set (sharedWith doc)"
  proof (intro allI impI)
    fix b docs' doc'
    assume a: "findById docs (params_id req) = Some doc
          \<and> removeSharing e docs req = ((200, b), docs')
          \<and> findById docs' (params_id req) = Some doc'"
    then obtain i where
      d: "docs' = map (\<lambda>x. if doc_id x = params_id req
                          then doc\<lparr>sharedWith := take i (sharedWith doc) @ drop (Suc i) (sharedWith doc),
                                 updatedAt := now e\<rparr>
                          else x) docs"
      using removeSharing_200D [of e docs req b docs'] by auto
    let ?d = "doc\<lparr>sharedWith := take i (sharedWith doc) @ drop (Suc i) (sharedWith doc),
                 updatedAt := now e\<rparr>"
    from a have f: "findById docs (params_id req) = Some doc"
      and f': "findById docs' (params_id req) = Some doc'" by blast+
    have "doc_id ?d = params_id req" using f by (simp add: findById_SomeD)
    with f have "findById docs' (params_id req) = Some ?d"
      unfolding d by (rule findById_replace)
    with f' have "doc' = ?d" by simp
    then show "set (sharedWith doc') \<subseteq> set (sharedWith doc)"
      using set_take_subset [of i "sharedWith doc"] set_drop_subset [of "Suc i" "sharedWith doc"]
      by auto
  qed
  show ?thesis by (intro conjI p1 p2 p3 p4 p5)
qed

text \<open>Witness for C9: the store reached by Alice's upload and her share with Bob, her
  attempt to share with herself, and her change and removal of Bob's share.\<close>

theorem owner_never_in_sharedWith_witness:
  "reachable [doc1_shared]
   \<and> user \<lparr>user = Some ''b2'', accessLevel = Edit, sharedAt = 500\<rparr> \<noteq> Some (owner doc1_shared)
   \<and> shareDocument env0 users0 [doc1] req_alice_self =
       ((400, Message ''Cannot share document with yourself''), [doc1])
   \<and> uploadDocument env0 [] req_alice = ((201, Data doc1), [doc1])
   \<and> sharedWith doc1 = []
   \<and> map user (sharedWith (doc1_viewed\<lparr>updatedAt := 2000\<rparr>)) = map user (sharedWith doc1_shared)
   \<and> set (sharedWith (doc1\<lparr>updatedAt := 2000\<rparr>)) \<subseteq> set (sharedWith doc1_shared)"
proof -
  note th = owner_never_in_sharedWith [of "[doc1_shared]"]
  have m: "doc1_shared \<in> set [doc1_shared]"
    "\<lparr>user = Some ''b2'', accessLevel = Edit, sharedAt = 500\<rparr> \<in> set (sharedWith doc1_shared)"
    by (simp_all add: sample_docs)
  note c1 = th [THEN conjunct1, rule_format, OF sample_reachable(2) m]
  have h: "errors req_alice_self = [] \<and> findById [doc1] (params_id req_alice_self) = Some doc1
        \<and> owner doc1 = user_id (req_user req_alice_self)
        \<and> findOne_email users0 (body_email req_alice_self) = Some alice
        \<and> user_id alice = user_id (req_user req_alice_self)"
    by (simp add: sample_doc_requests sample_docs sample_lookups alice_def)
  note c2 = owner_never_in_sharedWith [of "[doc1]" req_alice_self doc1 users0 alice env0,
      THEN conjunct2, THEN conjunct1, rule_format, OF h]
  note c3 = owner_never_in_sharedWith [of "[]" req_alice _ _ _ env0,
      THEN conjunct2, THEN conjunct2, THEN conjunct1, rule_format, OF sample_upload]
  have h4: "findById [doc1_shared] (params_id req_alice_view) = Some doc1_shared
      \<and> updateSharing env_late [doc1_shared] req_alice_view =
          ((200, MessageData ''Sharing permissions updated'' (doc1_viewed\<lparr>updatedAt := 2000\<rparr>)),
           [doc1_viewed\<lparr>updatedAt := 2000\<rparr>])
      \<and> findById [doc1_viewed\<lparr>updatedAt := 2000\<rparr>] (params_id req_alice_view)
          = Some (doc1_viewed\<lparr>updatedAt := 2000\<rparr>)"
    by (simp add: sample_update_remove sample_doc_requests sample_docs)
       (simp add: findById_def doc1_viewed_def doc1_def)
  note c4 = owner_never_in_sharedWith [of "[doc1_shared]" req_alice_view doc1_shared _ _ env_late,
      THEN conjunct2, THEN conjunct2, THEN conjunct2, THEN conjunct1, rule_format, OF h4]
  have h5: "findById [doc1_shared] (params_id req_alice) = Some doc1_shared
      \<and> removeSharing env_late [doc1_shared] req_alice =
          ((200, MessageData ''Sharing removed'' (doc1\<lparr>updatedAt := 2000\<rparr>)),
           [doc1\<lparr>updatedAt := 2000\<rparr>])
      \<and> findById [doc1\<lparr>updatedAt := 2000\<rparr>] (params_id req_alice) = Some (doc1\<lparr>updatedAt := 2000\<rparr>)"
    by (simp add: sample_update_remove sample_doc_requests sample_docs)
       (simp add: findById_def doc1_def)
  note c5 = owner_never_in_sharedWith [of "[doc1_shared]" req_alice doc1_shared _ _ env_late,
      THEN conjunct2, THEN conjunct2, THEN conjunct2, THEN conjunct2, rule_format, OF h5]
  show ?thesis
    by (intro conjI sample_reachable c1 c2 sample_upload c3 c4 c5)
qed

end
